theory Spec2Isabelle
  imports Main
begin

section \<open>Python values used by the scheduling tools\<close>

text \<open>
  The tools of \<^verbatim>\<open>src/tools.py\<close> exchange strings and dictionaries with their caller and
  with the calendar backend, and compute on \<^verbatim>\<open>datetime\<close> and \<^verbatim>\<open>timedelta\<close> objects.
  A string is the list of its characters, each one a code point below 256. An exception
  is a value, an instance of \<^verbatim>\<open>Exception\<close>, which is what the handlers of the tools
  catch; \<^verbatim>\<open>str(e)\<close> is its message.
\<close>

datatype exn =
    ValueError string
  | TypeError string
  | KeyError string
  | OverflowError string
  | ParserError string
  | HttpError string
  | UnicodeEncodeError string

text \<open>
  A text between apostrophes, as messages quote a name. \<^verbatim>\<open>repr(s)\<close> of a string: between apostrophes, or between double quotes when the string
  has an apostrophe and no double quote; the backslash, the enclosing quote, and the
  characters that are not printable are escaped.
\<close>

definition quoted :: "string \<Rightarrow> string" where
  "quoted s = [CHR 0x27] @ s @ [CHR 0x27]"

definition hex_digit :: "nat \<Rightarrow> char" where
  "hex_digit n = ''0123456789abcdef'' ! n"

definition printable :: "char \<Rightarrow> bool" where
  "printable c = (let n = (of_char c :: nat)
                  in (32 \<le> n \<and> n < 127) \<or> (161 \<le> n \<and> n \<noteq> 173))"

definition escaped :: "char \<Rightarrow> char \<Rightarrow> string" where
  "escaped quote c =
     (if c = CHR 0x5C \<or> c = quote then [CHR 0x5C, c]
      else if c = CHR 0x09 then [CHR 0x5C, CHR ''t'']
      else if c = CHR 0x0A then [CHR 0x5C, CHR ''n'']
      else if c = CHR 0x0D then [CHR 0x5C, CHR ''r'']
      else if printable c then [c]
      else [CHR 0x5C, CHR ''x'', hex_digit (of_char c div 16), hex_digit (of_char c mod 16)])"

definition repr :: "string \<Rightarrow> string" where
  "repr s =
     (let quote = (if CHR 0x27 \<in> set s \<and> CHR 0x22 \<notin> set s then CHR 0x22 else CHR 0x27)
      in [quote] @ concat (map (escaped quote) s) @ [quote])"

fun str :: "exn \<Rightarrow> string" where
  "str (ValueError m) = m"
| "str (TypeError m) = m"
| "str (KeyError k) = repr k"
| "str (OverflowError m) = m"
| "str (ParserError m) = m"
| "str (HttpError m) = m"
| "str (UnicodeEncodeError m) = m"

subsection \<open>timedelta and datetime\<close>

text \<open>
  A \<^verbatim>\<open>timedelta\<close> is an exact number of microseconds. A \<^verbatim>\<open>datetime\<close> is its wall-clock
  reading, counted in microseconds from 0001-01-01T00:00:00 in the proleptic Gregorian
  calendar (every day has 86400 seconds), together with its \<^verbatim>\<open>tzinfo\<close>: \<open>None\<close> for a
  naive value, the UTC offset for an aware one. The largest reading is
  9999-12-31T23:59:59.999999; arithmetic that leaves the range raises OverflowError.
\<close>

type_synonym timedelta = int

definition timedelta_minutes :: "int \<Rightarrow> timedelta" where
  "timedelta_minutes n = n * 60000000"

record datetime =
  wall :: int
  tzinfo :: "timedelta option"

definition wall_limit :: int where
  "wall_limit = 3652059 * 86400000000"

definition hour :: "datetime \<Rightarrow> int" where
  "hour d = (wall d div 3600000000) mod 24"

definition minute :: "datetime \<Rightarrow> int" where
  "minute d = (wall d div 60000000) mod 60"

definition second :: "datetime \<Rightarrow> int" where
  "second d = (wall d div 1000000) mod 60"

definition microsecond :: "datetime \<Rightarrow> int" where
  "microsecond d = wall d mod 1000000"

text \<open>\<^verbatim>\<open>d + td\<close>: wall-clock arithmetic, the \<^verbatim>\<open>tzinfo\<close> is kept.\<close>

definition dt_add :: "datetime \<Rightarrow> timedelta \<Rightarrow> exn + datetime" where
  "dt_add d td =
     (let w = wall d + td
      in if 0 \<le> w \<and> w < wall_limit then Inr (d\<lparr>wall := w\<rparr>)
         else Inl (OverflowError ''date value out of range''))"

text \<open>
  The instant on the UTC time line that an aware value denotes. Two aware values are
  compared and subtracted as instants (with the same \<^verbatim>\<open>tzinfo\<close> this is the comparison of
  the wall-clock readings), two naive values by their readings, and a naive with an
  aware value raises TypeError.
\<close>

definition instant :: "datetime \<Rightarrow> int" where
  "instant d = wall d - (case tzinfo d of None \<Rightarrow> 0 | Some off \<Rightarrow> off)"

definition mixed :: "datetime \<Rightarrow> datetime \<Rightarrow> bool" where
  "mixed a b = ((tzinfo a = None) \<noteq> (tzinfo b = None))"

definition dt_less :: "datetime \<Rightarrow> datetime \<Rightarrow> exn + bool" where
  "dt_less a b =
     (if mixed a b then Inl (TypeError ''can't compare offset-naive and offset-aware datetimes'')
      else Inr (instant a < instant b))"

definition dt_greater :: "datetime \<Rightarrow> datetime \<Rightarrow> exn + bool" where
  "dt_greater a b =
     (if mixed a b then Inl (TypeError ''can't compare offset-naive and offset-aware datetimes'')
      else Inr (instant a > instant b))"

definition dt_sub :: "datetime \<Rightarrow> datetime \<Rightarrow> exn + timedelta" where
  "dt_sub a b =
     (if mixed a b then Inl (TypeError ''can't subtract offset-naive and offset-aware datetimes'')
      else Inr (instant a - instant b))"

text \<open>\<^verbatim>\<open>d.replace(tzinfo=None)\<close> and \<^verbatim>\<open>d.replace(second=0, microsecond=0)\<close>.\<close>

definition replace_tzinfo_None :: "datetime \<Rightarrow> datetime" where
  "replace_tzinfo_None d = d\<lparr>tzinfo := None\<rparr>"

definition replace_second_microsecond_0 :: "datetime \<Rightarrow> datetime" where
  "replace_second_microsecond_0 d = d\<lparr>wall := wall d - wall d mod 60000000\<rparr>"

subsection \<open>The time zone\<close>

text \<open>
  \<^verbatim>\<open>tz = pytz.timezone('Asia/Kolkata')\<close>. The zone's table is not part of the repository:
  it is a parameter. \<open>local_utcoffset\<close> gives the offset \<^verbatim>\<open>tz.localize\<close> attaches to a
  wall-clock reading (or the exception it raises), \<open>utc_utcoffset\<close> the offset in force
  at an instant, used by \<^verbatim>\<open>astimezone\<close>.
\<close>

record zone =
  local_utcoffset :: "int \<Rightarrow> exn + timedelta"
  utc_utcoffset :: "int \<Rightarrow> timedelta"

definition localize :: "zone \<Rightarrow> datetime \<Rightarrow> exn + datetime" where
  "localize tz d =
     (if tzinfo d \<noteq> None then Inl (ValueError ''Not naive datetime (tzinfo is already set)'')
      else case local_utcoffset tz (wall d) of
             Inl e \<Rightarrow> Inl e
           | Inr off \<Rightarrow> Inr (d\<lparr>tzinfo := Some off\<rparr>))"

definition astimezone :: "zone \<Rightarrow> datetime \<Rightarrow> exn + datetime" where
  "astimezone tz d =
     (case tzinfo d of
        None \<Rightarrow> Inl (ValueError ''astimezone() cannot be applied to a naive datetime'')
      | Some off \<Rightarrow>
          (let utc = wall d - off
           in if \<not> (0 \<le> utc \<and> utc < wall_limit) then Inl (OverflowError ''date value out of range'')
              else let w = utc + utc_utcoffset tz utc
                   in if \<not> (0 \<le> w \<and> w < wall_limit) then Inl (OverflowError ''date value out of range'')
                      else Inr \<lparr>wall = w, tzinfo = Some (utc_utcoffset tz utc)\<rparr>))"

text \<open>
  India Standard Time, +05:30: the offset of Asia/Kolkata at every reading since October
  1945. It stands for the zone in the examples, which are all dated 2025.
\<close>

definition Asia_Kolkata :: zone where
  "Asia_Kolkata = \<lparr>local_utcoffset = (\<lambda>w. Inr 19800000000), utc_utcoffset = (\<lambda>u. 19800000000)\<rparr>"

subsection \<open>The calendar\<close>

text \<open>
  Days are numbered as \<^verbatim>\<open>date.toordinal\<close> does: 0001-01-01 is day 1. The two conversions
  follow \<^verbatim>\<open>_ymd2ord\<close> and \<^verbatim>\<open>_ord2ymd\<close> of the standard library.
\<close>

definition is_leap :: "int \<Rightarrow> bool" where
  "is_leap y = (y mod 4 = 0 \<and> (y mod 100 \<noteq> 0 \<or> y mod 400 = 0))"

definition days_before_year :: "int \<Rightarrow> int" where
  "days_before_year y = (y - 1) * 365 + (y - 1) div 4 - (y - 1) div 100 + (y - 1) div 400"

definition DAYS_IN_MONTH :: "int list" where
  "DAYS_IN_MONTH = [-1, 31, 28, 31, 30, 31, 30, 31, 31, 30, 31, 30, 31]"

definition DAYS_BEFORE_MONTH :: "int list" where
  "DAYS_BEFORE_MONTH = [-1, 0, 31, 59, 90, 120, 151, 181, 212, 243, 273, 304, 334]"

definition days_in_month :: "int \<Rightarrow> int \<Rightarrow> int" where
  "days_in_month y m = (if m = 2 \<and> is_leap y then 29 else DAYS_IN_MONTH ! nat m)"

definition days_before_month :: "int \<Rightarrow> int \<Rightarrow> int" where
  "days_before_month y m = DAYS_BEFORE_MONTH ! nat m + (if m > 2 \<and> is_leap y then 1 else 0)"

definition ymd2ord :: "int \<Rightarrow> int \<Rightarrow> int \<Rightarrow> int" where
  "ymd2ord y m d = days_before_year y + days_before_month y m + d"

definition ord2ymd :: "int \<Rightarrow> int \<times> int \<times> int" where
  "ord2ymd ordinal =
     (let n = ordinal - 1;
          n400 = n div 146097; n = n mod 146097;
          n100 = n div 36524; n = n mod 36524;
          n4 = n div 1461; n = n mod 1461;
          n1 = n div 365; n = n mod 365;
          year = n400 * 400 + 1 + n100 * 100 + n4 * 4 + n1
      in if n1 = 4 \<or> n100 = 4 then (year - 1, 12, 31)
         else let leapyear = (n1 = 3 \<and> (n4 \<noteq> 24 \<or> n100 = 3));
                  month = (n + 50) div 32;
                  preceding = DAYS_BEFORE_MONTH ! nat month + (if month > 2 \<and> leapyear then 1 else 0)
              in if preceding > n
                 then let month = month - 1;
                          preceding = preceding - (DAYS_IN_MONTH ! nat month + (if month = 2 \<and> leapyear then 1 else 0))
                      in (year, month, n - preceding + 1)
                 else (year, month, n - preceding + 1))"

subsection \<open>ISO 8601 text\<close>

text \<open>
  \<^verbatim>\<open>datetime.isoformat()\<close> writes \<^verbatim>\<open>YYYY-MM-DDTHH:MM:SS[.ffffff][+HH:MM[:SS[.ffffff]]]\<close>, and
  \<^verbatim>\<open>datetime.fromisoformat\<close> reads the texts of the form
  \<^verbatim>\<open>YYYY-MM-DD[*HH[:MM[:SS[.fff[fff]]]][+HH:MM[:SS[.ffffff]]]]\<close> (any character for \<^verbatim>\<open>*\<close>), the
  grammar documented for Python 3.7 to 3.10 (later versions read more texts); a number is
  a run of ASCII digits. Any other text raises ValueError with the message
  \<^verbatim>\<open>Invalid isoformat string\<close>. A text of that form with a field out of range raises the
  ValueError of the constructor of \<^verbatim>\<open>timezone\<close> or of \<^verbatim>\<open>datetime\<close>.
\<close>

definition digit_of :: "char \<Rightarrow> int option" where
  "digit_of c =
     (if c \<in> set ''0123456789''
      then Some (int (length (takeWhile (\<lambda>d. d \<noteq> c) ''0123456789'')))
      else None)"

fun digits_value :: "int \<Rightarrow> string \<Rightarrow> int option" where
  "digits_value acc [] = Some acc"
| "digits_value acc (c # cs) =
     (case digit_of c of None \<Rightarrow> None | Some d \<Rightarrow> digits_value (10 * acc + d) cs)"

definition py_int :: "string \<Rightarrow> int option" where
  "py_int s = (if s = [] then None else digits_value 0 s)"

definition digit_char :: "int \<Rightarrow> char" where
  "digit_char n = ''0123456789'' ! nat n"

text \<open>\<^verbatim>\<open>'%0wd' % n\<close> for \<open>0 \<le> n < 10 ^ w\<close>.\<close>

fun zero_padded :: "nat \<Rightarrow> int \<Rightarrow> string" where
  "zero_padded 0 n = []"
| "zero_padded (Suc w) n = zero_padded w (n div 10) @ [digit_char (n mod 10)]"

text \<open>\<^verbatim>\<open>str(n)\<close> for an integer.\<close>

fun str_nat :: "nat \<Rightarrow> string" where
  "str_nat n = (if n < 10 then [digit_char (int n)]
                else str_nat (n div 10) @ [digit_char (int (n mod 10))])"

declare str_nat.simps [simp del]

definition str_int :: "int \<Rightarrow> string" where
  "str_int n = (if n < 0 then ''-'' @ str_nat (nat (- n)) else str_nat (nat n))"

definition slice :: "nat \<Rightarrow> nat \<Rightarrow> string \<Rightarrow> string" where
  "slice i j s = take (j - i) (drop i s)"

definition invalid_isoformat :: "string \<Rightarrow> exn" where
  "invalid_isoformat s = ValueError (''Invalid isoformat string: '' @ repr s)"

definition parse_isoformat_date :: "string \<Rightarrow> (int \<times> int \<times> int) option" where
  "parse_isoformat_date dtstr =
     (if length dtstr \<noteq> 10 \<or> dtstr ! 4 \<noteq> CHR ''-'' \<or> dtstr ! 7 \<noteq> CHR ''-'' then None
      else case (py_int (slice 0 4 dtstr), py_int (slice 5 7 dtstr), py_int (slice 8 10 dtstr)) of
             (Some y, Some m, Some d) \<Rightarrow> Some (y, m, d)
           | _ \<Rightarrow> None)"

text \<open>\<^verbatim>\<open>HH[:MM[:SS[.fff[fff]]]]\<close>: hours, minutes, seconds, microseconds.\<close>

definition parse_hh_mm_ss_ff :: "string \<Rightarrow> (int \<times> int \<times> int \<times> int) option" where
  "parse_hh_mm_ss_ff tstr =
     (let n = length tstr;
          hh = py_int (slice 0 2 tstr); mm = py_int (slice 3 5 tstr); ss = py_int (slice 6 8 tstr)
      in if n = 2 then (case hh of Some h \<Rightarrow> Some (h, 0, 0, 0) | None \<Rightarrow> None)
         else if n = 5 \<and> tstr ! 2 = CHR '':'' then
           (case (hh, mm) of (Some h, Some m) \<Rightarrow> Some (h, m, 0, 0) | _ \<Rightarrow> None)
         else if (n = 8 \<or> n = 12 \<or> n = 15) \<and> tstr ! 2 = CHR '':'' \<and> tstr ! 5 = CHR '':''
                 \<and> (n = 8 \<or> tstr ! 8 = CHR ''.'') then
           (case (hh, mm, ss, if n = 8 then Some 0 else py_int (drop 9 tstr)) of
              (Some h, Some m, Some s, Some f) \<Rightarrow> Some (h, m, s, if n = 12 then f * 1000 else f)
            | _ \<Rightarrow> None)
         else None)"

definition comps_us :: "int \<times> int \<times> int \<times> int \<Rightarrow> int" where
  "comps_us c = (case c of (h, m, s, f) \<Rightarrow> ((h * 60 + m) * 60 + s) * 1000000 + f)"

text \<open>
  The offset starts at the first \<^verbatim>\<open>-\<close> of the time text, or at the first \<^verbatim>\<open>+\<close> when it has
  no \<^verbatim>\<open>-\<close>. The result is the fields of the time of day and the offset, if one is written.
\<close>

definition parse_isoformat_time :: "string \<Rightarrow> ((int \<times> int \<times> int \<times> int) \<times> timedelta option) option" where
  "parse_isoformat_time tstr =
     (let sep = (if CHR ''-'' \<in> set tstr then CHR ''-'' else CHR ''+'');
          timestr = takeWhile (\<lambda>c. c \<noteq> sep) tstr
      in if length tstr < 2 then None
         else case parse_hh_mm_ss_ff timestr of
           None \<Rightarrow> None
         | Some time_comps \<Rightarrow>
             if sep \<notin> set tstr then Some (time_comps, None)
             else let tzstr = drop (Suc (length timestr)) tstr
                  in if length tzstr \<notin> {5, 8, 15} then None
                     else case parse_hh_mm_ss_ff tzstr of
                       None \<Rightarrow> None
                     | Some tz_comps \<Rightarrow>
                         Some (time_comps,
                               Some (if sep = CHR ''-'' then - comps_us tz_comps else comps_us tz_comps)))"

text \<open>
  \<^verbatim>\<open>repr\<close> of a \<^verbatim>\<open>timedelta\<close>, and the constructors: \<^verbatim>\<open>timezone(offset)\<close> wants an offset
  strictly between minus and plus 24 hours, \<^verbatim>\<open>datetime(year, month, day, hour, minute,
  second, microsecond, tzinfo)\<close> checks its fields in this order.
\<close>

fun comma_separated :: "string list \<Rightarrow> string" where
  "comma_separated [] = []"
| "comma_separated [a] = a"
| "comma_separated (a # b # rest) = a @ '', '' @ comma_separated (b # rest)"

definition repr_timedelta :: "timedelta \<Rightarrow> string" where
  "repr_timedelta td =
     (let days = td div 86400000000; seconds = (td mod 86400000000) div 1000000;
          microseconds = td mod 1000000;
          args = (if days \<noteq> 0 then [''days='' @ str_int days] else [])
               @ (if seconds \<noteq> 0 then [''seconds='' @ str_int seconds] else [])
               @ (if microseconds \<noteq> 0 then [''microseconds='' @ str_int microseconds] else [])
      in ''datetime.timedelta('' @ (if args = [] then ''0'' else comma_separated args) @ '')'')"

definition new_timezone :: "timedelta \<Rightarrow> exn + timedelta" where
  "new_timezone offset =
     (if - 86400000000 < offset \<and> offset < 86400000000 then Inr offset
      else Inl (ValueError (''offset must be a timedelta strictly between -timedelta(hours=24) and timedelta(hours=24), not ''
                            @ repr_timedelta offset @ ''.'')))"

definition new_datetime ::
  "int \<Rightarrow> int \<Rightarrow> int \<Rightarrow> int \<times> int \<times> int \<times> int \<Rightarrow> timedelta option \<Rightarrow> exn + datetime" where
  "new_datetime y m d time_comps tzi =
     (case time_comps of (hh, mm, ss, ff) \<Rightarrow>
        if \<not> (1 \<le> y \<and> y \<le> 9999) then Inl (ValueError (''year '' @ str_int y @ '' is out of range''))
        else if \<not> (1 \<le> m \<and> m \<le> 12) then Inl (ValueError ''month must be in 1..12'')
        else if \<not> (1 \<le> d \<and> d \<le> days_in_month y m) then Inl (ValueError ''day is out of range for month'')
        else if \<not> (0 \<le> hh \<and> hh < 24) then Inl (ValueError ''hour must be in 0..23'')
        else if \<not> (0 \<le> mm \<and> mm < 60) then Inl (ValueError ''minute must be in 0..59'')
        else if \<not> (0 \<le> ss \<and> ss < 60) then Inl (ValueError ''second must be in 0..59'')
        else if \<not> (0 \<le> ff \<and> ff < 1000000) then Inl (ValueError ''microsecond must be in 0..999999'')
        else Inr \<lparr>wall = (ymd2ord y m d - 1) * 86400000000 + comps_us time_comps, tzinfo = tzi\<rparr>)"

definition fromisoformat :: "string \<Rightarrow> exn + datetime" where
  "fromisoformat date_string =
     (let dstr = slice 0 10 date_string; tstr = drop 11 date_string
      in case parse_isoformat_date dstr of
           None \<Rightarrow> Inl (invalid_isoformat date_string)
         | Some (y, m, d) \<Rightarrow>
             (case (if length date_string \<le> 10 then Some ((0, 0, 0, 0), None)
                    else parse_isoformat_time tstr) of
                None \<Rightarrow> Inl (invalid_isoformat date_string)
              | Some (time_comps, None) \<Rightarrow> new_datetime y m d time_comps None
              | Some (time_comps, Some offset) \<Rightarrow>
                  (case new_timezone offset of
                     Inl e \<Rightarrow> Inl e
                   | Inr off \<Rightarrow> new_datetime y m d time_comps (Some off))))"

definition format_offset :: "timedelta option \<Rightarrow> string" where
  "format_offset off =
     (case off of
        None \<Rightarrow> []
      | Some o1 \<Rightarrow>
          (let sign = (if o1 < 0 then ''-'' else ''+''); a = \<bar>o1\<bar>;
               hh = a div 3600000000; mm = (a div 60000000) mod 60;
               ss = (a div 1000000) mod 60; us = a mod 1000000
           in sign @ zero_padded 2 hh @ '':'' @ zero_padded 2 mm
              @ (if ss \<noteq> 0 \<or> us \<noteq> 0 then '':'' @ zero_padded 2 ss else [])
              @ (if us \<noteq> 0 then ''.'' @ zero_padded 6 us else [])))"

definition isoformat :: "datetime \<Rightarrow> string" where
  "isoformat d =
     (case ord2ymd (wall d div 86400000000 + 1) of
        (y, m, dd) \<Rightarrow>
          zero_padded 4 y @ ''-'' @ zero_padded 2 m @ ''-'' @ zero_padded 2 dd @ ''T''
          @ zero_padded 2 (hour d) @ '':'' @ zero_padded 2 (minute d) @ '':'' @ zero_padded 2 (second d)
          @ (if microsecond d \<noteq> 0 then ''.'' @ zero_padded 6 (microsecond d) else [])
          @ format_offset (tzinfo d))"

section \<open>The calendar backend\<close>

text \<open>
  An event is the dictionary the Calendar API exchanges. \<^verbatim>\<open>event['start']\<close> and
  \<^verbatim>\<open>event['end']\<close> hold the keys \<^verbatim>\<open>dateTime\<close> and \<^verbatim>\<open>timeZone\<close>; an absent key is \<open>None\<close>
  (an all-day event has no \<^verbatim>\<open>dateTime\<close>) and reading it raises KeyError.
\<close>

record event_time =
  dateTime :: "string option"
  timeZone :: "string option"

record event_body =
  summary :: string
  start :: event_time
  end' :: event_time

record event = event_body +
  id' :: string
  ev_status :: string
  htmlLink :: string

text \<open>
  \<^verbatim>\<open>api_resource\<close> is the Google Calendar service or the mock. It is a parameter of the
  tools: \<open>events_list\<close> is \<^verbatim>\<open>api_resource.events().list(calendarId, timeMin, timeMax,
  singleEvents=True, orderBy='startTime').execute().get('items', [])\<close> and \<open>events_insert\<close>
  is \<^verbatim>\<open>api_resource.events().insert(calendarId, body).execute()\<close>, on a calendar state \<open>'s\<close>.
  Both may raise, and both return the state they leave.
\<close>

record 's api =
  events_list :: "'s \<Rightarrow> string \<Rightarrow> string \<Rightarrow> string \<Rightarrow> (exn + event list) \<times> 's"
  events_insert :: "'s \<Rightarrow> string \<Rightarrow> event_body \<Rightarrow> (exn + event) \<times> 's"

subsection \<open>MockGoogleCalendarAPI\<close>

text \<open>
  The state of the mock is \<^verbatim>\<open>self.events\<close>, the list of the events inserted so far. Its
  two methods each print a line first (lines 37 and 50); they are given here from the
  line after it, as what a call that gets past the \<^verbatim>\<open>print\<close> computes.
\<close>

definition event_start :: "event \<Rightarrow> exn + datetime" where
  "event_start ev = (case dateTime (start ev) of None \<Rightarrow> Inl (KeyError ''dateTime'')
                     | Some s \<Rightarrow> fromisoformat s)"

definition event_end :: "event \<Rightarrow> exn + datetime" where
  "event_end ev = (case dateTime (end' ev) of None \<Rightarrow> Inl (KeyError ''dateTime'')
                   | Some s \<Rightarrow> fromisoformat s)"

text \<open>
  The condition of the list comprehension of \<^verbatim>\<open>list_events\<close>, with the short circuit of
  \<^verbatim>\<open>and\<close>: the end of the event is read only when its start is before \<^verbatim>\<open>max_dt\<close>.
\<close>

definition conflicts :: "datetime \<Rightarrow> datetime \<Rightarrow> event \<Rightarrow> exn + bool" where
  "conflicts min_dt max_dt ev =
     (case event_start ev of
        Inl e \<Rightarrow> Inl e
      | Inr bs \<Rightarrow>
          (case dt_less bs max_dt of
             Inl e \<Rightarrow> Inl e
           | Inr False \<Rightarrow> Inr False
           | Inr True \<Rightarrow>
               (case event_end ev of
                  Inl e \<Rightarrow> Inl e
                | Inr be \<Rightarrow> dt_greater be min_dt)))"

fun conflicting :: "datetime \<Rightarrow> datetime \<Rightarrow> event list \<Rightarrow> exn + event list" where
  "conflicting min_dt max_dt [] = Inr []"
| "conflicting min_dt max_dt (ev # evs) =
     (case conflicts min_dt max_dt ev of
        Inl e \<Rightarrow> Inl e
      | Inr b \<Rightarrow>
          (case conflicting min_dt max_dt evs of
             Inl e \<Rightarrow> Inl e
           | Inr rest \<Rightarrow> Inr (if b then ev # rest else rest)))"

definition list_events :: "event list \<Rightarrow> string \<Rightarrow> string \<Rightarrow> string \<Rightarrow> exn + event list" where
  "list_events events calendarId timeMin timeMax =
     (case fromisoformat timeMin of
        Inl e \<Rightarrow> Inl e
      | Inr min_dt \<Rightarrow>
          (case fromisoformat timeMax of
             Inl e \<Rightarrow> Inl e
           | Inr max_dt \<Rightarrow> conflicting min_dt max_dt events))"

definition insert_event :: "event list \<Rightarrow> string \<Rightarrow> event_body \<Rightarrow> event \<times> event list" where
  "insert_event events calendarId eventBody =
     (let new_event = \<lparr>summary = summary eventBody, start = start eventBody, end' = end' eventBody,
                       id' = ''mock_event_'' @ str_nat (length events + 1),
                       ev_status = ''confirmed'',
                       htmlLink = ''https://mockcalendar.google.com/event/'' @ str_nat (length events + 1)\<rparr>
      in (new_event, events @ [new_event]))"

text \<open>
  \<^verbatim>\<open>list_events\<close> and \<^verbatim>\<open>insert_event\<close> are not reached through \<^verbatim>\<open>api_resource\<close>. On an
  instance of the mock, \<^verbatim>\<open>__init__\<close> binds the attribute \<^verbatim>\<open>events\<close> to the list of stored
  events, and an instance attribute is found before a method of the class: with the mock
  as \<^verbatim>\<open>api_resource\<close>, \<^verbatim>\<open>api_resource.events()\<close> calls that list and raises TypeError, for
  the list request and for the insert request alike. (The object the method \<^verbatim>\<open>events\<close>
  of lines 62 to 77 would build does not answer either: its \<^verbatim>\<open>list\<close> and \<^verbatim>\<open>insert\<close> are
  functions of keyword arguments only, and called on the object they are given the
  object itself and raise TypeError.)
\<close>

definition MockGoogleCalendarAPI :: "(event list) api" where
  "MockGoogleCalendarAPI =
     \<lparr>events_list = (\<lambda>events calendarId timeMin timeMax.
                       (Inl (TypeError (quoted ''list'' @ '' object is not callable'')), events)),
      events_insert = (\<lambda>events calendarId body.
                         (Inl (TypeError (quoted ''list'' @ '' object is not callable'')), events))\<rparr>"

section \<open>The tools\<close>

definition time_zone :: string where
  "time_zone = ''Asia/Kolkata''"

subsection \<open>parse_natural_datetime\<close>

text \<open>
  The result is a dictionary with the key \<^verbatim>\<open>parsed_datetime\<close> or the key \<^verbatim>\<open>error\<close>.
  \<^verbatim>\<open>dateutil.parser.parse(input_string, fuzzy=True, default=current_dt)\<close> is a library
  function and a parameter here: from the phrase and the default it returns a datetime
  or raises.
\<close>

record parse_reply =
  parsed_datetime :: "string option"
  error :: "string option"

definition parse_natural_datetime_try ::
  "zone \<Rightarrow> (string \<Rightarrow> datetime \<Rightarrow> exn + datetime) \<Rightarrow> string \<Rightarrow> string \<Rightarrow> exn + parse_reply" where
  "parse_natural_datetime_try tz dateutil_parse input_string current_datetime_str =
     (case fromisoformat current_datetime_str of
        Inl e \<Rightarrow> Inl e
      | Inr d \<Rightarrow>
     (case localize tz (replace_tzinfo_None d) of
        Inl e \<Rightarrow> Inl e
      | Inr current_dt \<Rightarrow>
     (case dateutil_parse input_string current_dt of
        Inl e \<Rightarrow> Inl e
      | Inr parsed_dt \<Rightarrow>
     (case (if tzinfo parsed_dt = None then localize tz parsed_dt else astimezone tz parsed_dt) of
        Inl e \<Rightarrow> Inl e
      | Inr parsed_dt \<Rightarrow> Inr \<lparr>parsed_datetime = Some (isoformat parsed_dt), error = None\<rparr>))))"

definition parse_natural_datetime ::
  "zone \<Rightarrow> (string \<Rightarrow> datetime \<Rightarrow> exn + datetime) \<Rightarrow> string \<Rightarrow> string \<Rightarrow> parse_reply" where
  "parse_natural_datetime tz dateutil_parse input_string current_datetime_str =
     (case parse_natural_datetime_try tz dateutil_parse input_string current_datetime_str of
        Inr r \<Rightarrow> r
      | Inl e \<Rightarrow> \<lparr>parsed_datetime = None,
                  error = Some (''Could not parse natural datetime: '' @ str e
                                @ ''. Please try a more specific format.'')\<rparr>)"

subsection \<open>smart_schedule_meeting\<close>

text \<open>The dictionary the tool returns; an absent key is \<open>None\<close>.\<close>

record reply =
  status :: string
  message :: string
  event :: "event option"
  suggested_start :: "string option"
  suggested_end :: "string option"

definition missing_details :: reply where
  "missing_details =
     \<lparr>status = ''error'',
      message = ''Missing required meeting details (summary, preferred_start, preferred_end).'',
      event = None, suggested_start = None, suggested_end = None\<rparr>"

definition scheduled :: "event \<Rightarrow> reply" where
  "scheduled created_event =
     \<lparr>status = ''success'', message = ''Meeting scheduled.'',
      event = Some created_event, suggested_start = None, suggested_end = None\<rparr>"

definition suggested :: "datetime \<Rightarrow> datetime \<Rightarrow> reply" where
  "suggested suggested_start_dt suggested_end_dt =
     \<lparr>status = ''conflict'',
      message = ''Preferred time is busy. Suggested next available slot:'',
      event = None,
      suggested_start = Some (isoformat suggested_start_dt),
      suggested_end = Some (isoformat suggested_end_dt)\<rparr>"

definition unavailable :: reply where
  "unavailable =
     \<lparr>status = ''conflict'',
      message = ''Preferred time is busy and next suggested time is also unavailable. Please try another slot.'',
      event = None, suggested_start = None, suggested_end = None\<rparr>"

definition error_occurred :: "exn \<Rightarrow> reply" where
  "error_occurred e =
     \<lparr>status = ''error'', message = ''An error occurred: '' @ str e,
      event = None, suggested_start = None, suggested_end = None\<rparr>"

text \<open>
  Lines 88 to 92: the loop over the conflicting events. The end of each is read without
  its offset and localized (line 90); the latest one so far is kept.
\<close>

definition conflict_end :: "zone \<Rightarrow> event \<Rightarrow> exn + datetime" where
  "conflict_end tz conflict =
     (case event_end conflict of
        Inl e \<Rightarrow> Inl e
      | Inr d \<Rightarrow> localize tz (replace_tzinfo_None d))"

fun latest_end :: "zone \<Rightarrow> datetime \<Rightarrow> event list \<Rightarrow> exn + datetime" where
  "latest_end tz suggested_start_dt [] = Inr suggested_start_dt"
| "latest_end tz suggested_start_dt (conflict # rest) =
     (case conflict_end tz conflict of
        Inl e \<Rightarrow> Inl e
      | Inr conflict_end_dt \<Rightarrow>
     (case dt_greater conflict_end_dt suggested_start_dt of
        Inl e \<Rightarrow> Inl e
      | Inr b \<Rightarrow> latest_end tz (if b then conflict_end_dt else suggested_start_dt) rest))"

text \<open>Lines 94 to 99: the buffer of five minutes and the rounding to a half hour.\<close>

definition buffer_and_round :: "datetime \<Rightarrow> exn + datetime" where
  "buffer_and_round suggested_start_dt =
     (case dt_add suggested_start_dt (timedelta_minutes 5) of
        Inl e \<Rightarrow> Inl e
      | Inr buffered \<Rightarrow>
          (let minutes = minute buffered; remainder = minutes mod 30
           in case (if remainder \<noteq> 0 then dt_add buffered (timedelta_minutes (30 - remainder))
                    else Inr buffered) of
                Inl e \<Rightarrow> Inl e
              | Inr rounded \<Rightarrow> Inr (replace_second_microsecond_0 rounded)))"

text \<open>Lines 88 to 102: the suggested window.\<close>

definition suggest_slot ::
  "zone \<Rightarrow> datetime \<Rightarrow> datetime \<Rightarrow> event list \<Rightarrow> exn + datetime \<times> datetime" where
  "suggest_slot tz start_dt end_dt conflicting_events =
     (case latest_end tz end_dt conflicting_events of
        Inl e \<Rightarrow> Inl e
      | Inr latest \<Rightarrow>
     (case buffer_and_round latest of
        Inl e \<Rightarrow> Inl e
      | Inr suggested_start_dt \<Rightarrow>
     (case dt_sub end_dt start_dt of
        Inl e \<Rightarrow> Inl e
      | Inr duration \<Rightarrow>
     (case dt_add suggested_start_dt duration of
        Inl e \<Rightarrow> Inl e
      | Inr suggested_end_dt \<Rightarrow> Inr (suggested_start_dt, suggested_end_dt)))))"

definition new_event_body :: "string \<Rightarrow> string \<Rightarrow> string \<Rightarrow> event_body" where
  "new_event_body summary' start_iso end_iso =
     \<lparr>summary = summary',
      start = \<lparr>dateTime = Some start_iso, timeZone = Some time_zone\<rparr>,
      end' = \<lparr>dateTime = Some end_iso, timeZone = Some time_zone\<rparr>\<rparr>"

text \<open>Lines 87 to 123: the branch taken when the preferred window has conflicts.\<close>

definition on_conflict ::
  "zone \<Rightarrow> 's api \<Rightarrow> datetime \<Rightarrow> datetime \<Rightarrow> event list \<Rightarrow> string \<Rightarrow> 's \<Rightarrow> (exn + reply) \<times> 's" where
  "on_conflict tz api_resource start_dt end_dt conflicting_events calendar_id s =
     (case suggest_slot tz start_dt end_dt conflicting_events of
        Inl e \<Rightarrow> (Inl e, s)
      | Inr (suggested_start_dt, suggested_end_dt) \<Rightarrow>
          (case events_list api_resource s calendar_id
                  (isoformat suggested_start_dt) (isoformat suggested_end_dt) of
             (Inl e, s') \<Rightarrow> (Inl e, s')
           | (Inr items, s') \<Rightarrow>
               if items = [] then (Inr (suggested suggested_start_dt suggested_end_dt), s')
               else (Inr unavailable, s')))"

text \<open>Lines 63 and 64: the preferred window, read without its offsets and localized.\<close>

definition preferred_window :: "zone \<Rightarrow> string \<Rightarrow> string \<Rightarrow> exn + datetime \<times> datetime" where
  "preferred_window tz preferred_start preferred_end =
     (case fromisoformat preferred_start of
        Inl e \<Rightarrow> Inl e
      | Inr d1 \<Rightarrow>
     (case localize tz (replace_tzinfo_None d1) of
        Inl e \<Rightarrow> Inl e
      | Inr start_dt \<Rightarrow>
     (case fromisoformat preferred_end of
        Inl e \<Rightarrow> Inl e
      | Inr d2 \<Rightarrow>
     (case localize tz (replace_tzinfo_None d2) of
        Inl e \<Rightarrow> Inl e
      | Inr end_dt \<Rightarrow> Inr (start_dt, end_dt)))))"

text \<open>Lines 62 to 123: the body of the \<^verbatim>\<open>try\<close> statement.\<close>

definition smart_schedule_meeting_try ::
  "zone \<Rightarrow> 's api \<Rightarrow> string \<Rightarrow> string \<Rightarrow> string \<Rightarrow> string \<Rightarrow> 's \<Rightarrow> (exn + reply) \<times> 's" where
  "smart_schedule_meeting_try tz api_resource summary' preferred_start preferred_end calendar_id s =
     (case preferred_window tz preferred_start preferred_end of
        Inl e \<Rightarrow> (Inl e, s)
      | Inr (start_dt, end_dt) \<Rightarrow>
     (let start_iso = isoformat start_dt; end_iso = isoformat end_dt
      in case events_list api_resource s calendar_id start_iso end_iso of
           (Inl e, s') \<Rightarrow> (Inl e, s')
         | (Inr conflicting_events, s') \<Rightarrow>
             if conflicting_events = [] then
               (case events_insert api_resource s' calendar_id
                       (new_event_body summary' start_iso end_iso) of
                  (Inl e, s'') \<Rightarrow> (Inl e, s'')
                | (Inr created_event, s'') \<Rightarrow> (Inr (scheduled created_event), s''))
             else on_conflict tz api_resource start_dt end_dt conflicting_events calendar_id s'))"

text \<open>
  Lines 124 to 126: the handler. It prints the exception and then returns the error
  reply. \<^verbatim>\<open>print\<close> writes to the standard output of the process, which is not part of the
  repository: it is a parameter, giving for a text \<open>None\<close> when \<^verbatim>\<open>print\<close> returns and the
  exception when it raises (a UnicodeEncodeError where the encoding of the stream has no
  code for a character of the text). The handler is outside the \<^verbatim>\<open>try\<close>: what \<^verbatim>\<open>print\<close>
  raises there leaves the function.
\<close>

definition on_exception :: "(string \<Rightarrow> exn option) \<Rightarrow> exn \<Rightarrow> exn + reply" where
  "on_exception print e =
     (case print (''Error in smart_schedule_meeting: '' @ str e) of
        Some raised \<Rightarrow> Inl raised
      | None \<Rightarrow> Inr (error_occurred e))"

text \<open>
  The whole function. \<open>Inr\<close> is the dictionary it returns, \<open>Inl\<close> an exception that
  leaves it.
\<close>

definition smart_schedule_meeting ::
  "(string \<Rightarrow> exn option) \<Rightarrow> zone \<Rightarrow> 's api \<Rightarrow> string \<Rightarrow> string \<Rightarrow> string \<Rightarrow> string \<Rightarrow> 's
   \<Rightarrow> (exn + reply) \<times> 's" where
  "smart_schedule_meeting print tz api_resource summary' preferred_start preferred_end calendar_id s =
     (if summary' = [] \<or> preferred_start = [] \<or> preferred_end = [] then (Inr missing_details, s)
      else case smart_schedule_meeting_try tz api_resource summary' preferred_start preferred_end
                  calendar_id s of
             (Inr r, s') \<Rightarrow> (Inr r, s')
           | (Inl e, s') \<Rightarrow> (on_exception print e, s'))"

section \<open>Notions used to state the properties\<close>

text \<open>
  A count of minutes rounded up to a multiple of thirty: a multiple of thirty stays,
  any other count moves to the next one.
\<close>

definition half_hour_ceiling :: "int \<Rightarrow> int" where
  "half_hour_ceiling q = (if q mod 30 = 0 then q else q + (30 - q mod 30))"

text \<open>The datetime an ISO text denotes, for writing down concrete instants.\<close>

definition iso :: "string \<Rightarrow> datetime" where
  "iso s = (case fromisoformat s of Inr d \<Rightarrow> d | Inl e \<Rightarrow> \<lparr>wall = 0, tzinfo = None\<rparr>)"

text \<open>A stored event with the given summary, start and end, as \<^verbatim>\<open>insert_event\<close> builds it.\<close>

definition booking :: "string \<Rightarrow> string \<Rightarrow> string \<Rightarrow> event" where
  "booking summary' start_iso end_iso =
     \<lparr>summary = summary',
      start = \<lparr>dateTime = Some start_iso, timeZone = Some time_zone\<rparr>,
      end' = \<lparr>dateTime = Some end_iso, timeZone = Some time_zone\<rparr>,
      id' = ''mock_event_1'', ev_status = ''confirmed'',
      htmlLink = ''https://mockcalendar.google.com/event/1''\<rparr>"

text \<open>Two bookings that overlap a meeting from 10:00 to 10:30 on 2025-07-17.\<close>

definition standup :: event where
  "standup = booking ''Standup'' ''2025-07-17T10:15:00+05:30'' ''2025-07-17T11:00:00+05:30''"

definition overrun :: event where
  "overrun = booking ''Review'' ''2025-07-17T10:15:00+05:30'' ''2025-07-17T10:55:30+05:30''"

text \<open>
  A booking made from another zone, from 21:00 to midnight at the offset -07:00: in
  India it lasts from 09:30 to 12:30 on 2025-07-17.
\<close>

definition overnight :: event where
  "overnight = booking ''Launch'' ''2025-07-16T21:00:00-07:00'' ''2025-07-17T00:00:00-07:00''"

text \<open>
  A datetime that carries the offset the zone has at its wall-clock reading: reading it
  without its offset and localizing it gives it back.
\<close>

definition in_zone :: "zone \<Rightarrow> datetime \<Rightarrow> bool" where
  "in_zone tz d = (localize tz (replace_tzinfo_None d) = Inr d)"

text \<open>
  A calendar service that answers, for the examples. It keeps the events in a list,
  lists them with \<^verbatim>\<open>list_events\<close> and stores them with \<^verbatim>\<open>insert_event\<close>. No object of the
  repository does so, the mock raises at every request: this one stands for the Google
  Calendar service, whose code is not in the repository.
\<close>

definition calendar_service :: "(event list) api" where
  "calendar_service =
     \<lparr>events_list = (\<lambda>events calendarId timeMin timeMax.
                       (list_events events calendarId timeMin timeMax, events)),
      events_insert = (\<lambda>events calendarId body.
                         (case insert_event events calendarId body of
                            (new_event, events') \<Rightarrow> (Inr new_event, events')))\<rparr>"

text \<open>
  Two standard outputs. One takes every text (an encoding that has every character, as
  UTF-8). The other has the encoding \<^verbatim>\<open>ascii\<close>: \<^verbatim>\<open>print\<close> raises UnicodeEncodeError at the
  first run of characters from 128 on.
\<close>

definition utf_8_stdout :: "string \<Rightarrow> exn option" where
  "utf_8_stdout text = None"

definition ascii_stdout :: "string \<Rightarrow> exn option" where
  "ascii_stdout text =
     (let encoded = takeWhile (\<lambda>c. (of_char c :: nat) < 128) text;
          run = takeWhile (\<lambda>c. \<not> (of_char c :: nat) < 128) (drop (length encoded) text)
      in if run = [] then None
         else Some (UnicodeEncodeError
           (quoted ''ascii'' @ '' codec can't encode ''
            @ (if length run = 1
               then ''character '' @ [CHR 0x27, CHR 0x5C, CHR ''x'', hex_digit (of_char (hd run) div 16),
                                       hex_digit (of_char (hd run) mod 16), CHR 0x27]
                    @ '' in position '' @ str_nat (length encoded)
               else ''characters in position '' @ str_nat (length encoded) @ ''-''
                    @ str_nat (length encoded + length run - 1))
            @ '': ordinal not in range(128)'')))"

text \<open>
  What \<^verbatim>\<open>dateutil.parser.parse\<close> does with a phrase in which it finds no date and no
  time, the empty string among them: it raises ParserError, whatever the default.
\<close>

definition no_date_found :: "string \<Rightarrow> datetime \<Rightarrow> exn + datetime" where
  "no_date_found timestr default_dt = Inl (ParserError (''String does not contain a date: '' @ timestr))"

section \<open>Arithmetic of minutes\<close>

lemma floor_minute: "(w::int) - w mod 60000000 = 60000000 * (w div 60000000)"
  by (simp add: minus_mod_eq_mult_div)

lemma div_add_minutes: "((b::int) + k * 60000000) div 60000000 = b div 60000000 + k"
  by simp

lemma minute_multiple_second: "(60000000 * (q::int) div 1000000) mod 60 = 0"
proof -
  have "60000000 * q = 1000000 * (60 * q)" by simp
  then have "60000000 * q div 1000000 = 60 * q" by (simp only: nonzero_mult_div_cancel_left)
  then show ?thesis by simp
qed

lemma minute_multiple_microsecond: "(60000000 * (q::int)) mod 1000000 = 0"
proof -
  have "60000000 * q = 1000000 * (60 * q)" by simp
  then show ?thesis by (simp only: mod_mult_self1_is_0)
qed

lemma mod_30_mod_60: assumes "(q::int) mod 30 = 0" shows "q mod 60 = 0 \<or> q mod 60 = 30"
proof -
  from assms have q: "q = 30 * (q div 30)" by (simp add: mod_eq_0_iff_dvd)
  have "(30 * (q div 30)) mod (30 * 2) = 30 * ((q div 30) mod 2)"
    by (simp only: mult_mod_right)
  moreover have "(q div 30) mod 2 = 0 \<or> (q div 30) mod 2 = 1" by (simp add: mod2_eq_if)
  ultimately have "(30 * (q div 30)) mod 60 = 0 \<or> (30 * (q div 30)) mod 60 = 30" by auto
  with q show ?thesis by simp
qed

lemma half_hour_ceiling_mod: "half_hour_ceiling q mod 30 = 0"
proof (cases "q mod 30 = 0")
  case True then show ?thesis by (simp add: half_hour_ceiling_def)
next
  case False
  define r d where "r = q mod 30" and "d = q div 30"
  have "q = 30 * d + r" unfolding r_def d_def by simp
  then have "q + (30 - r) = 30 * (d + 1)" by simp
  then have "(q + (30 - r)) mod 30 = 0" by (simp only: mod_mult_self1_is_0)
  then show ?thesis using False by (simp add: half_hour_ceiling_def r_def)
qed

lemma half_hour_ceiling_bounds: "q \<le> half_hour_ceiling q \<and> half_hour_ceiling q < q + 30"
proof -
  define r where "r = q mod 30"
  have "0 \<le> r" "r < 30" unfolding r_def by simp_all
  then have "r \<noteq> 0 \<longrightarrow> q \<le> q + (30 - r) \<and> q + (30 - r) < q + 30" by linarith
  then show ?thesis unfolding half_hour_ceiling_def r_def by simp
qed

section \<open>The suggested slot\<close>

lemma dt_add_Inr: "dt_add d td = Inr r \<Longrightarrow> wall r = wall d + td \<and> tzinfo r = tzinfo d"
  by (auto simp: dt_add_def Let_def split: if_splits)

lemma minute_mod_30: "minute b mod 30 = (wall b div 60000000) mod 30"
  unfolding minute_def by (simp add: mod_mod_cancel)

lemma buffer_and_round_cases:
  assumes "buffer_and_round d = Inr r"
  obtains b where "dt_add d (timedelta_minutes 5) = Inr b" "minute b mod 30 = 0"
      "r = replace_second_microsecond_0 b"
  | b c where "dt_add d (timedelta_minutes 5) = Inr b" "minute b mod 30 \<noteq> 0"
      "dt_add b (timedelta_minutes (30 - minute b mod 30)) = Inr c"
      "r = replace_second_microsecond_0 c"
  using assms unfolding buffer_and_round_def Let_def
  by (auto split: sum.splits if_splits)

lemma buffer_and_round_Inr:
  assumes "buffer_and_round d = Inr r"
  shows "wall r = 60000000 * half_hour_ceiling ((wall d + 300000000) div 60000000)"
    and "tzinfo r = tzinfo d"
proof -
  define q where "q = (wall d + 300000000) div 60000000"
  have both: "wall r = 60000000 * half_hour_ceiling q \<and> tzinfo r = tzinfo d"
    using assms
  proof (cases rule: buffer_and_round_cases)
    case (1 b)
    have wb: "wall b = wall d + 300000000" and tb: "tzinfo b = tzinfo d"
      using dt_add_Inr [OF 1(1)] by (simp_all add: timedelta_minutes_def)
    have "q mod 30 = 0" using 1(2) by (simp add: minute_mod_30 wb q_def)
    then have "half_hour_ceiling q = q" by (simp add: half_hour_ceiling_def)
    then show ?thesis
      using 1(3) wb tb by (simp add: replace_second_microsecond_0_def floor_minute q_def)
  next
    case (2 b c)
    have wb: "wall b = wall d + 300000000" and tb: "tzinfo b = tzinfo d"
      using dt_add_Inr [OF 2(1)] by (simp_all add: timedelta_minutes_def)
    have m: "minute b mod 30 = q mod 30" by (simp add: minute_mod_30 wb q_def)
    have wc: "wall c = wall b + (30 - q mod 30) * 60000000" and tc: "tzinfo c = tzinfo b"
      using dt_add_Inr [OF 2(3)] by (simp_all add: timedelta_minutes_def m)
    have "wall c div 60000000 = wall b div 60000000 + (30 - q mod 30)"
      unfolding wc by (rule div_add_minutes)
    moreover have "half_hour_ceiling q = q + (30 - q mod 30)"
      using 2(2) m by (simp add: half_hour_ceiling_def)
    ultimately have "wall c div 60000000 = half_hour_ceiling q"
      by (simp add: wb q_def)
    then show ?thesis
      using 2(4) tb tc by (simp add: replace_second_microsecond_0_def floor_minute)
  qed
  show "wall r = 60000000 * half_hour_ceiling ((wall d + 300000000) div 60000000)"
    using both by (simp add: q_def)
  show "tzinfo r = tzinfo d" using both by simp
qed

lemma suggest_slot_Inr:
  assumes "suggest_slot tz start_dt end_dt evs = Inr (cs, ce)"
  obtains latest duration where "latest_end tz end_dt evs = Inr latest"
    and "buffer_and_round latest = Inr cs"
    and "dt_sub end_dt start_dt = Inr duration"
    and "dt_add cs duration = Inr ce"
  using assms unfolding suggest_slot_def by (auto split: sum.splits)

section \<open>The scheduling call, case by case\<close>

lemma fromisoformat_empty: "fromisoformat [] = Inl (invalid_isoformat [])"
  by (simp add: fromisoformat_def slice_def parse_isoformat_date_def)

lemma preferred_window_nonempty:
  assumes "preferred_window tz preferred_start preferred_end = Inr w"
  shows "preferred_start \<noteq> [] \<and> preferred_end \<noteq> []"
proof -
  have "preferred_window tz [] preferred_end \<noteq> Inr w"
    by (simp add: preferred_window_def fromisoformat_empty)
  moreover have "preferred_window tz preferred_start [] \<noteq> Inr w"
    by (simp add: preferred_window_def fromisoformat_empty split: sum.splits)
  ultimately show ?thesis using assms by auto
qed

lemma preferred_window_Inr:
  "preferred_window tz preferred_start preferred_end = Inr (start_dt, end_dt) \<longleftrightarrow>
     (\<exists>x y. fromisoformat preferred_start = Inr x \<and> localize tz (replace_tzinfo_None x) = Inr start_dt
          \<and> fromisoformat preferred_end = Inr y \<and> localize tz (replace_tzinfo_None y) = Inr end_dt)"
  by (auto simp: preferred_window_def split: sum.splits)

lemma on_conflict_eq:
  "on_conflict tz api start_dt end_dt evs cal s1 =
     (case suggest_slot tz start_dt end_dt evs of
        Inl e \<Rightarrow> (Inl e, s1)
      | Inr (cs, ce) \<Rightarrow>
          (case events_list api s1 cal (isoformat cs) (isoformat ce) of
             (Inl e, s2) \<Rightarrow> (Inl e, s2)
           | (Inr items, s2) \<Rightarrow> (Inr (if items = [] then suggested cs ce else unavailable), s2)))"
  by (simp add: on_conflict_def split: sum.splits prod.splits)

lemma smart_schedule_meeting_list_fails:
  assumes "summary' \<noteq> []"
    and "preferred_window tz ps pe = Inr (start_dt, end_dt)"
    and "events_list api s cal (isoformat start_dt) (isoformat end_dt) = (Inl e, s1)"
  shows "smart_schedule_meeting print tz api summary' ps pe cal s = (on_exception print e, s1)"
  using assms preferred_window_nonempty [OF assms(2)]
  by (simp add: smart_schedule_meeting_def smart_schedule_meeting_try_def)

lemma smart_schedule_meeting_free:
  assumes "summary' \<noteq> []"
    and "preferred_window tz ps pe = Inr (start_dt, end_dt)"
    and "events_list api s cal (isoformat start_dt) (isoformat end_dt) = (Inr [], s1)"
  shows "smart_schedule_meeting print tz api summary' ps pe cal s =
     (case events_insert api s1 cal (new_event_body summary' (isoformat start_dt) (isoformat end_dt)) of
        (Inl e, s2) \<Rightarrow> (on_exception print e, s2)
      | (Inr created_event, s2) \<Rightarrow> (Inr (scheduled created_event), s2))"
  using assms preferred_window_nonempty [OF assms(2)]
  by (simp add: smart_schedule_meeting_def smart_schedule_meeting_try_def split: sum.splits prod.splits)

lemma smart_schedule_meeting_busy:
  assumes "summary' \<noteq> []"
    and "preferred_window tz ps pe = Inr (start_dt, end_dt)"
    and "events_list api s cal (isoformat start_dt) (isoformat end_dt) = (Inr evs, s1)"
    and "evs \<noteq> []"
  shows "smart_schedule_meeting print tz api summary' ps pe cal s =
     (case suggest_slot tz start_dt end_dt evs of
        Inl e \<Rightarrow> (on_exception print e, s1)
      | Inr (cs, ce) \<Rightarrow>
          (case events_list api s1 cal (isoformat cs) (isoformat ce) of
             (Inl e, s2) \<Rightarrow> (on_exception print e, s2)
           | (Inr items, s2) \<Rightarrow> (Inr (if items = [] then suggested cs ce else unavailable), s2)))"
  using assms preferred_window_nonempty [OF assms(2)]
  by (simp add: smart_schedule_meeting_def smart_schedule_meeting_try_def on_conflict_eq
      split: sum.splits prod.splits)

section \<open>The latest end and the rounding\<close>

lemma dt_greater_Inr: "dt_greater a b = Inr r \<Longrightarrow> r = (instant a > instant b)"
  by (auto simp: dt_greater_def split: if_splits)

lemma latest_end_Cons:
  assumes "latest_end tz d (c # cs) = Inr l"
  obtains x where "conflict_end tz c = Inr x"
    and "latest_end tz (if instant x > instant d then x else d) cs = Inr l"
proof -
  from assms obtain x b where x: "conflict_end tz c = Inr x"
    and b: "dt_greater x d = Inr b"
    and rest: "latest_end tz (if b then x else d) cs = Inr l"
    by (simp split: sum.splits)
  from dt_greater_Inr [OF b] rest have "latest_end tz (if instant x > instant d then x else d) cs = Inr l"
    by simp
  with x that show ?thesis by blast
qed

lemma latest_end_Inr:
  assumes "latest_end tz d evs = Inr l"
  shows "instant d \<le> instant l
         \<and> (l = d \<or> (\<exists>c\<in>set evs. conflict_end tz c = Inr l))
         \<and> (\<forall>c\<in>set evs. \<exists>x. conflict_end tz c = Inr x \<and> instant x \<le> instant l)"
  using assms
proof (induction evs arbitrary: d)
  case Nil
  then show ?case by simp
next
  case (Cons c cs)
  from Cons.prems obtain x where x: "conflict_end tz c = Inr x"
    and rest: "latest_end tz (if instant x > instant d then x else d) cs = Inr l"
    by (rule latest_end_Cons)
  define m where "m = (if instant x > instant d then x else d)"
  have ih: "instant m \<le> instant l"
      "l = m \<or> (\<exists>c\<in>set cs. conflict_end tz c = Inr l)"
      "\<forall>c\<in>set cs. \<exists>x. conflict_end tz c = Inr x \<and> instant x \<le> instant l"
    using Cons.IH [of m] rest by (simp_all add: m_def)
  have m1: "instant d \<le> instant m" and m2: "instant x \<le> instant m" and m3: "m = x \<or> m = d"
    by (simp_all add: m_def)
  have a: "instant d \<le> instant l" using ih(1) m1 by linarith
  have b: "instant x \<le> instant l" using ih(1) m2 by linarith
  have c: "l = d \<or> (\<exists>c'\<in>set (c # cs). conflict_end tz c' = Inr l)"
    using ih(2) m3 x by auto
  have d: "\<forall>c'\<in>set (c # cs). \<exists>x. conflict_end tz c' = Inr x \<and> instant x \<le> instant l"
    using ih(3) x b by simp
  from a c d show ?case by blast
qed

lemma whole_minute:
  assumes "second d = 0" and "microsecond d = 0"
  shows "\<exists>k. wall d = 60000000 * k"
proof -
  define w where "w = wall d"
  define a where "a = w div 1000000"
  from assms(2) have "w = 1000000 * a"
    by (simp add: microsecond_def w_def a_def mod_eq_0_iff_dvd)
  moreover from assms(1) have "a = 60 * (a div 60)"
    by (simp add: second_def w_def a_def mod_eq_0_iff_dvd)
  ultimately have "w = 1000000 * (60 * (a div 60))" by simp
  then have "w = 60000000 * (a div 60)" by simp
  then show ?thesis unfolding w_def by blast
qed

lemma floor_minute_bounds:
  fixes b :: int
  shows "b - 60000000 < 60000000 * (b div 60000000) \<and> 60000000 * (b div 60000000) \<le> b"
proof -
  define r where "r = b mod 60000000"
  have "0 \<le> r" "r < 60000000" by (simp_all add: r_def)
  moreover have "60000000 * (b div 60000000) = b - r"
    unfolding r_def by (simp add: floor_minute)
  ultimately show ?thesis by linarith
qed

lemma buffer_and_round_bounds:
  assumes r: "buffer_and_round latest = Inr cs"
  shows "wall latest + 300000000 - 60000000 < wall cs"
    and "second latest = 0 \<and> microsecond latest = 0 \<longrightarrow> wall latest + 300000000 \<le> wall cs"
proof -
  define b where "b = wall latest + 300000000"
  define q where "q = b div 60000000"
  have w: "wall cs = 60000000 * half_hour_ceiling q"
    using buffer_and_round_Inr(1) [OF r] by (simp add: q_def b_def)
  have lo: "b - 60000000 < 60000000 * q" and up: "60000000 * q \<le> b"
    using floor_minute_bounds [of b] by (simp_all add: q_def)
  have "q \<le> half_hour_ceiling q" using half_hour_ceiling_bounds [of q] by simp
  then have ge: "60000000 * q \<le> 60000000 * half_hour_ceiling q" by simp
  show "wall latest + 300000000 - 60000000 < wall cs"
    using lo ge w unfolding b_def by linarith
  show "second latest = 0 \<and> microsecond latest = 0 \<longrightarrow> wall latest + 300000000 \<le> wall cs"
  proof
    assume "second latest = 0 \<and> microsecond latest = 0"
    then obtain k where "wall latest = 60000000 * k" using whole_minute by blast
    then have "b = 60000000 * (k + 5)" by (simp add: b_def)
    then have "q = k + 5" unfolding q_def by simp
    with \<open>b = 60000000 * (k + 5)\<close> have "60000000 * q = b" by simp
    with ge w show "wall latest + 300000000 \<le> wall cs" unfolding b_def by linarith
  qed
qed

section \<open>Listing the conflicts\<close>




section \<open>The replies\<close>

lemma api_insert_irrelevant [simp]:
  "events_list (api\<lparr>events_insert := f\<rparr>) = events_list api"
  by simp

lemma status_values:
  "status missing_details = ''error''" "status (scheduled c) = ''success''"
  "status (suggested a b) = ''conflict''" "status unavailable = ''conflict''"
  "status (error_occurred e) = ''error''"
  by (simp_all add: missing_details_def scheduled_def suggested_def unavailable_def error_occurred_def)

lemma on_conflict_status:
  "on_conflict tz api start_dt end_dt evs cal s1 = (Inr r, s2) \<Longrightarrow> status r = ''conflict''"
  by (auto simp: on_conflict_eq status_values split: sum.splits prod.splits if_splits)

lemma smart_schedule_meeting_try_status:
  "smart_schedule_meeting_try tz api summary' ps pe cal s = (Inr r, s')
   \<Longrightarrow> status r = ''success'' \<or> status r = ''conflict''"
  unfolding smart_schedule_meeting_try_def Let_def
  by (auto simp: status_values split: sum.splits prod.splits if_splits dest: on_conflict_status)

lemma on_exception_returns:
  "print (''Error in smart_schedule_meeting: '' @ str e) = None
   \<Longrightarrow> on_exception print e = Inr (error_occurred e)"
  by (simp add: on_exception_def)

lemma on_exception_Inr: "on_exception print e = Inr r \<Longrightarrow> r = error_occurred e"
  by (simp add: on_exception_def split: option.splits)

lemma error_occurred_not_missing: "error_occurred e \<noteq> missing_details"
proof
  assume "error_occurred e = missing_details"
  then have "message (error_occurred e) = message missing_details" by simp
  then show False by (simp add: error_occurred_def missing_details_def)
qed

lemma smart_schedule_meeting_cases:
  obtains (missing) "summary' = [] \<or> ps = [] \<or> pe = []"
      "smart_schedule_meeting print tz api summary' ps pe cal s = (Inr missing_details, s)"
  | (returned) r s' where "summary' \<noteq> []" "ps \<noteq> []" "pe \<noteq> []"
      "smart_schedule_meeting_try tz api summary' ps pe cal s = (Inr r, s')"
      "smart_schedule_meeting print tz api summary' ps pe cal s = (Inr r, s')"
  | (raised) e s' where "summary' \<noteq> []" "ps \<noteq> []" "pe \<noteq> []"
      "smart_schedule_meeting_try tz api summary' ps pe cal s = (Inl e, s')"
      "smart_schedule_meeting print tz api summary' ps pe cal s = (on_exception print e, s')"
proof (cases "summary' = [] \<or> ps = [] \<or> pe = []")
  case True
  then show ?thesis using missing by (simp add: smart_schedule_meeting_def)
next
  case False
  obtain x s' where t: "smart_schedule_meeting_try tz api summary' ps pe cal s = (x, s')"
    by (cases "smart_schedule_meeting_try tz api summary' ps pe cal s")
  show ?thesis
  proof (cases x)
    case (Inl e)
    with False t show ?thesis using raised [of e s'] by (simp add: smart_schedule_meeting_def)
  next
    case (Inr r)
    with False t show ?thesis using returned [of r s'] by (simp add: smart_schedule_meeting_def)
  qed
qed

lemma smart_schedule_meeting_status:
  assumes "fst (smart_schedule_meeting print tz api summary' ps pe cal s) = Inr r"
  shows "status r \<in> {''success'', ''conflict'', ''error''}"
proof (cases rule: smart_schedule_meeting_cases [of summary' ps pe print tz api cal s])
  case missing
  with assms show ?thesis by (simp add: status_values)
next
  case (returned r' s')
  from returned(4) have "status r' = ''success'' \<or> status r' = ''conflict''"
    by (rule smart_schedule_meeting_try_status)
  with returned(5) assms show ?thesis by auto
next
  case (raised e s')
  with assms have "on_exception print e = Inr r" by simp
  then have "r = error_occurred e" by (rule on_exception_Inr)
  then show ?thesis by (simp add: status_values)
qed

lemma insert_event_echo:
  "insert_event events calendarId body = (ev, events')
   \<Longrightarrow> summary ev = summary body \<and> start ev = start body \<and> end' ev = end' body
       \<and> events' = events @ [ev]"
  by (auto simp: insert_event_def Let_def)

lemma replace_tzinfo_None_eq:
  "wall x = wall y \<Longrightarrow> replace_tzinfo_None x = replace_tzinfo_None y"
  by (simp add: replace_tzinfo_None_def)

lemma fromisoformat_nonempty: "fromisoformat s = Inr d \<Longrightarrow> s \<noteq> []"
  using fromisoformat_empty by auto

lemma localize_Inr:
  assumes "localize tz (replace_tzinfo_None x) = Inr d"
  shows "wall d = wall x" and "tzinfo d \<noteq> None" and "in_zone tz d"
    and "in_zone tz x \<longleftrightarrow> d = x"
    and "tzinfo x \<noteq> None \<Longrightarrow> instant d = instant x \<longleftrightarrow> d = x"
proof -
  from assms obtain off where off: "local_utcoffset tz (wall x) = Inr off"
    and d: "d = \<lparr>wall = wall x, tzinfo = Some off\<rparr>"
    by (auto simp: localize_def replace_tzinfo_None_def split: sum.splits)
  show "wall d = wall x" "tzinfo d \<noteq> None" using d by simp_all
  show "in_zone tz d" using off d by (simp add: in_zone_def localize_def replace_tzinfo_None_def)
  show "in_zone tz x \<longleftrightarrow> d = x" using assms by (auto simp: in_zone_def)
  show "instant d = instant x \<longleftrightarrow> d = x" if "tzinfo x \<noteq> None"
    using that d by (cases x) (auto simp: instant_def)
qed

lemma conflict_end_in_zone:
  assumes "conflict_end tz c = Inr x" and "\<forall>d. event_end c = Inr d \<longrightarrow> in_zone tz d"
  shows "event_end c = Inr x"
  using assms by (auto simp: conflict_end_def in_zone_def split: sum.splits)

section \<open>The claims\<close>

lemma scenario_suggest_slot:
  "suggest_slot Asia_Kolkata (iso ''2025-07-17T10:00:00+05:30'') (iso ''2025-07-17T10:30:00+05:30'')
     [standup]
   = Inr (iso ''2025-07-17T11:30:00+05:30'', iso ''2025-07-17T12:00:00+05:30'')"
  by code_simp

text \<open>
  Claim C5. The suggested window is as long as the preferred one: whenever a slot is
  suggested, the suggested end minus the suggested start is the preferred end minus the
  preferred start.
\<close>

theorem duration_preserved:
  assumes "suggest_slot tz start_dt end_dt conflicting_events = Inr (suggested_start_dt, suggested_end_dt)"
  shows "dt_sub suggested_end_dt suggested_start_dt = dt_sub end_dt start_dt"
proof -
  from assms obtain latest duration where d: "dt_sub end_dt start_dt = Inr duration"
    and e: "dt_add suggested_start_dt duration = Inr suggested_end_dt"
    by (rule suggest_slot_Inr)
  from dt_add_Inr [OF e] have "dt_sub suggested_end_dt suggested_start_dt = Inr duration"
    by (simp add: dt_sub_def mixed_def instant_def)
  with d show ?thesis by simp
qed

theorem duration_preserved_witness:
  "suggest_slot Asia_Kolkata (iso ''2025-07-17T10:00:00+05:30'') (iso ''2025-07-17T10:30:00+05:30'')
     [standup]
   = Inr (iso ''2025-07-17T11:30:00+05:30'', iso ''2025-07-17T12:00:00+05:30'')
   \<and> dt_sub (iso ''2025-07-17T12:00:00+05:30'') (iso ''2025-07-17T11:30:00+05:30'')
     = dt_sub (iso ''2025-07-17T10:30:00+05:30'') (iso ''2025-07-17T10:00:00+05:30'')"
  using duration_preserved [OF scenario_suggest_slot] scenario_suggest_slot by simp

text \<open>
  Claim C6. The suggested start lies on a half hour: its minute is 0 or 30 and its
  second and microsecond are 0.
\<close>

theorem suggested_start_on_half_hour:
  assumes "suggest_slot tz start_dt end_dt conflicting_events = Inr (suggested_start_dt, suggested_end_dt)"
  shows "(minute suggested_start_dt = 0 \<or> minute suggested_start_dt = 30)
         \<and> second suggested_start_dt = 0 \<and> microsecond suggested_start_dt = 0"
proof -
  from assms obtain latest where "buffer_and_round latest = Inr suggested_start_dt"
    by (rule suggest_slot_Inr)
  then obtain q where w: "wall suggested_start_dt = 60000000 * q" and q: "q mod 30 = 0"
    using buffer_and_round_Inr(1) half_hour_ceiling_mod by blast
  have "minute suggested_start_dt = q mod 60"
    by (simp add: minute_def w)
  moreover have "q mod 60 = 0 \<or> q mod 60 = 30"
    using q by (rule mod_30_mod_60)
  moreover have "second suggested_start_dt = 0"
    unfolding second_def w by (rule minute_multiple_second)
  moreover have "microsecond suggested_start_dt = 0"
    unfolding microsecond_def w by (rule minute_multiple_microsecond)
  ultimately show ?thesis by simp
qed

theorem suggested_start_on_half_hour_witness:
  "suggest_slot Asia_Kolkata (iso ''2025-07-17T10:00:00+05:30'') (iso ''2025-07-17T10:30:00+05:30'')
     [standup]
   = Inr (iso ''2025-07-17T11:30:00+05:30'', iso ''2025-07-17T12:00:00+05:30'')
   \<and> (minute (iso ''2025-07-17T11:30:00+05:30'') = 0 \<or> minute (iso ''2025-07-17T11:30:00+05:30'') = 30)
   \<and> second (iso ''2025-07-17T11:30:00+05:30'') = 0
   \<and> microsecond (iso ''2025-07-17T11:30:00+05:30'') = 0"
  using suggested_start_on_half_hour [OF scenario_suggest_slot] scenario_suggest_slot by simp

lemma eleven_whole_minute:
  "second (iso ''2025-07-17T11:00:00+05:30'') = 0 \<and> microsecond (iso ''2025-07-17T11:00:00+05:30'') = 0"
  by code_simp

lemma standup_end_in_zone: "in_zone Asia_Kolkata (iso ''2025-07-17T11:00:00+05:30'')"
  by code_simp

lemma standup_ends_later:
  "instant (iso ''2025-07-17T10:30:00+05:30'') < instant (iso ''2025-07-17T11:00:00+05:30'')"
  by code_simp

lemma standup_window:
  "event_start standup = Inr (iso ''2025-07-17T10:15:00+05:30'')"
  "event_end standup = Inr (iso ''2025-07-17T11:00:00+05:30'')"
  by code_simp+

text \<open>
  Claim C4, as stated: the suggested start is the latest of the preferred end and the
  ends of the conflicting events, plus five minutes, rounded up to the next half hour,
  and is never earlier than that buffered instant. It fails in two ways. Where the
  buffered instant has seconds and its minute is 0 or 30: a booking that ends at 10:55:30
  gives the buffered instant 11:00:30, and the suggested start 11:00:00 is before it.
  And where the end of a booking is written with another offset than the zone's: the
  booking that ends at 00:00-07:00, which is 12:30 in India and later than the preferred
  end 10:30, gives the suggested start 11:00, before the end of that booking.
\<close>

theorem suggested_start_before_buffered_instant:
  "latest_end Asia_Kolkata (iso ''2025-07-17T10:30:00+05:30'') [overrun]
     = Inr (iso ''2025-07-17T10:55:30+05:30'')
   \<and> dt_add (iso ''2025-07-17T10:55:30+05:30'') (timedelta_minutes 5)
     = Inr (iso ''2025-07-17T11:00:30+05:30'')
   \<and> suggest_slot Asia_Kolkata (iso ''2025-07-17T10:00:00+05:30'') (iso ''2025-07-17T10:30:00+05:30'')
       [overrun]
     = Inr (iso ''2025-07-17T11:00:00+05:30'', iso ''2025-07-17T11:30:00+05:30'')
   \<and> dt_less (iso ''2025-07-17T11:00:00+05:30'') (iso ''2025-07-17T11:00:30+05:30'') = Inr True
   \<and> event_end overnight = Inr (iso ''2025-07-17T00:00:00-07:00'')
   \<and> dt_greater (iso ''2025-07-17T00:00:00-07:00'') (iso ''2025-07-17T10:30:00+05:30'') = Inr True
   \<and> suggest_slot Asia_Kolkata (iso ''2025-07-17T10:00:00+05:30'') (iso ''2025-07-17T10:30:00+05:30'')
       [overnight]
     = Inr (iso ''2025-07-17T11:00:00+05:30'', iso ''2025-07-17T11:30:00+05:30'')
   \<and> dt_less (iso ''2025-07-17T11:00:00+05:30'') (iso ''2025-07-17T00:00:00-07:00'') = Inr True"
  by code_simp

text \<open>
  Claim C4, amended. Take conflicting events whose ends are written with the offset of
  the calendar zone. Whenever a slot is suggested for them, there is a latest end
  \<open>latest\<close>: it is the preferred end or the end of a conflicting event, and as an
  instant it is not before the preferred end nor before the end of any conflicting
  event. The suggested start keeps its \<^verbatim>\<open>tzinfo\<close> and is \<open>latest\<close> plus five minutes
  with the seconds and microseconds dropped and the count of minutes moved up to a
  multiple of thirty (a minute that is 0 or 30 stays). So it is later than the buffered
  instant minus one minute, and it is not earlier than the buffered instant when
  \<open>latest\<close> has no seconds and no microseconds. Nothing is said of events whose end is
  written with another offset.
\<close>

theorem suggested_start_rounded:
  assumes "suggest_slot tz start_dt end_dt conflicting_events = Inr (suggested_start_dt, suggested_end_dt)"
    and "\<forall>c\<in>set conflicting_events. \<forall>d. event_end c = Inr d \<longrightarrow> in_zone tz d"
  shows "\<exists>latest.
      (latest = end_dt \<or> (\<exists>c\<in>set conflicting_events. event_end c = Inr latest))
    \<and> instant end_dt \<le> instant latest
    \<and> (\<forall>c\<in>set conflicting_events. \<exists>x. event_end c = Inr x \<and> instant x \<le> instant latest)
    \<and> tzinfo suggested_start_dt = tzinfo latest
    \<and> wall suggested_start_dt
        = 60000000 * half_hour_ceiling ((wall latest + timedelta_minutes 5) div 60000000)
    \<and> wall latest + timedelta_minutes 5 - 60000000 < wall suggested_start_dt
    \<and> (second latest = 0 \<and> microsecond latest = 0
        \<longrightarrow> wall latest + timedelta_minutes 5 \<le> wall suggested_start_dt)"
proof -
  from assms(1) obtain latest where l: "latest_end tz end_dt conflicting_events = Inr latest"
    and r: "buffer_and_round latest = Inr suggested_start_dt"
    by (rule suggest_slot_Inr)
  have five: "timedelta_minutes 5 = 300000000" by (simp add: timedelta_minutes_def)
  note m = latest_end_Inr [OF l]
  note w = buffer_and_round_Inr [OF r]
  note b = buffer_and_round_bounds [OF r]
  have e: "event_end c = Inr x" if "c \<in> set conflicting_events" "conflict_end tz c = Inr x" for c x
    using conflict_end_in_zone [OF that(2)] assms(2) that(1) by blast
  have 1: "latest = end_dt \<or> (\<exists>c\<in>set conflicting_events. event_end c = Inr latest)"
    using m e by blast
  have 2: "instant end_dt \<le> instant latest" using m by blast
  have 3: "\<forall>c\<in>set conflicting_events. \<exists>x. event_end c = Inr x \<and> instant x \<le> instant latest"
  proof
    fix c assume c: "c \<in> set conflicting_events"
    with m obtain x where "conflict_end tz c = Inr x" "instant x \<le> instant latest" by blast
    with e [OF c] show "\<exists>x. event_end c = Inr x \<and> instant x \<le> instant latest" by blast
  qed
  have 4: "tzinfo suggested_start_dt = tzinfo latest" using w(2) .
  have 5: "wall suggested_start_dt
        = 60000000 * half_hour_ceiling ((wall latest + timedelta_minutes 5) div 60000000)"
    unfolding five using w(1) .
  have 6: "wall latest + timedelta_minutes 5 - 60000000 < wall suggested_start_dt"
    unfolding five using b(1) .
  have 7: "second latest = 0 \<and> microsecond latest = 0
        \<longrightarrow> wall latest + timedelta_minutes 5 \<le> wall suggested_start_dt"
    unfolding five using b(2) .
  from 1 2 3 4 5 6 7 show ?thesis by blast
qed

theorem suggested_start_rounded_witness:
  "suggest_slot Asia_Kolkata (iso ''2025-07-17T10:00:00+05:30'') (iso ''2025-07-17T10:30:00+05:30'')
       [standup]
     = Inr (iso ''2025-07-17T11:30:00+05:30'', iso ''2025-07-17T12:00:00+05:30'')
   \<and> event_end standup = Inr (iso ''2025-07-17T11:00:00+05:30'')
   \<and> in_zone Asia_Kolkata (iso ''2025-07-17T11:00:00+05:30'')
   \<and> wall (iso ''2025-07-17T11:30:00+05:30'')
     = 60000000 * half_hour_ceiling
         ((wall (iso ''2025-07-17T11:00:00+05:30'') + timedelta_minutes 5) div 60000000)
   \<and> wall (iso ''2025-07-17T11:00:00+05:30'') + timedelta_minutes 5
     \<le> wall (iso ''2025-07-17T11:30:00+05:30'')"
proof -
  have z: "\<forall>c\<in>set [standup]. \<forall>d. event_end c = Inr d \<longrightarrow> in_zone Asia_Kolkata d"
    by (simp add: standup_window standup_end_in_zone)
  from suggested_start_rounded [OF scenario_suggest_slot z]
  obtain latest where l: "latest = iso ''2025-07-17T10:30:00+05:30''
        \<or> (\<exists>c\<in>set [standup]. event_end c = Inr latest)"
    and m: "\<forall>c\<in>set [standup]. \<exists>x. event_end c = Inr x \<and> instant x \<le> instant latest"
    and w: "wall (iso ''2025-07-17T11:30:00+05:30'')
        = 60000000 * half_hour_ceiling ((wall latest + timedelta_minutes 5) div 60000000)"
    and b: "second latest = 0 \<and> microsecond latest = 0
        \<longrightarrow> wall latest + timedelta_minutes 5 \<le> wall (iso ''2025-07-17T11:30:00+05:30'')"
    by blast
  from m have "instant (iso ''2025-07-17T11:00:00+05:30'') \<le> instant latest"
    by (simp add: standup_window)
  with l standup_ends_later have "latest = iso ''2025-07-17T11:00:00+05:30''"
    by (auto simp: standup_window)
  with w b eleven_whole_minute scenario_suggest_slot standup_window(2) standup_end_in_zone
  show ?thesis by simp
qed

lemma scenario_preferred_window:
  "preferred_window Asia_Kolkata ''2025-07-17T10:00:00+05:30'' ''2025-07-17T10:30:00+05:30''
   = Inr (iso ''2025-07-17T10:00:00+05:30'', iso ''2025-07-17T10:30:00+05:30'')"
  by code_simp

lemma scenario_isoformat:
  "isoformat (iso ''2025-07-17T10:00:00+05:30'') = ''2025-07-17T10:00:00+05:30''"
  "isoformat (iso ''2025-07-17T10:30:00+05:30'') = ''2025-07-17T10:30:00+05:30''"
  "isoformat (iso ''2025-07-17T11:30:00+05:30'') = ''2025-07-17T11:30:00+05:30''"
  "isoformat (iso ''2025-07-17T12:00:00+05:30'') = ''2025-07-17T12:00:00+05:30''"
  by code_simp+

lemma scenario_fromisoformat:
  "fromisoformat ''2025-07-17T10:00:00+05:30'' = Inr (iso ''2025-07-17T10:00:00+05:30'')"
  "fromisoformat ''2025-07-17T10:30:00+05:30'' = Inr (iso ''2025-07-17T10:30:00+05:30'')"
  by code_simp+

lemma scenario_localize:
  "localize Asia_Kolkata (replace_tzinfo_None (iso ''2025-07-17T10:00:00+05:30''))
   = Inr (iso ''2025-07-17T10:00:00+05:30'')"
  "localize Asia_Kolkata (replace_tzinfo_None (iso ''2025-07-17T10:30:00+05:30''))
   = Inr (iso ''2025-07-17T10:30:00+05:30'')"
  by code_simp+







text \<open>
  Claim C8. For every input no exception leaves the call: every failure comes back as a
  reply. The code misses this where the \<^verbatim>\<open>print\<close> of its handler raises. At the input
  below the preferred start is a phrase with the letter a with grave accent (code point
  224) in place of an ISO text, so \<^verbatim>\<open>fromisoformat\<close> raises ValueError with that phrase
  in its message; on a standard output with the encoding \<^verbatim>\<open>ascii\<close> the handler cannot
  print the message, and the UnicodeEncodeError leaves the call. (The handler of
  \<^verbatim>\<open>parse_natural_datetime\<close> returns its error reply without printing.)
\<close>

theorem print_failure_leaves_the_call:
  "smart_schedule_meeting ascii_stdout Asia_Kolkata MockGoogleCalendarAPI ''Sync''
       (''demain '' @ [CHR 0xE0] @ '' 10h'') ''2025-07-17T10:30:00+05:30'' ''primary'' []
   = (Inl (UnicodeEncodeError (quoted ''ascii'' @ '' codec can't encode character ''
             @ [CHR 0x27, CHR 0x5C] @ ''xe0'' @ [CHR 0x27]
             @ '' in position 67: ordinal not in range(128)'')), [])"
  by code_simp

text \<open>
  The rest of claim C8 holds wherever the \<^verbatim>\<open>print\<close> of the handler returns. Then the
  call always ends with a reply, whose status is success, conflict or error. When a
  request to the backend raises (the first list request, the insert request, or the list
  request for the suggested slot), the reply is the error reply with the message of the
  exception, and its status differs from the status of the two conflict replies.
\<close>

theorem failures_are_error_replies:
  assumes "\<And>e. print (''Error in smart_schedule_meeting: '' @ str e) = None"
  shows "(\<exists>r. fst (smart_schedule_meeting print tz api summary' preferred_start preferred_end
                   calendar_id s) = Inr r
            \<and> status r \<in> {''success'', ''conflict'', ''error''})
   \<and> (summary' \<noteq> []
      \<and> preferred_window tz preferred_start preferred_end = Inr (start_dt, end_dt)
      \<and> (events_list api s calendar_id (isoformat start_dt) (isoformat end_dt) = (Inl e, s')
         \<or> (\<exists>s1. events_list api s calendar_id (isoformat start_dt) (isoformat end_dt) = (Inr [], s1)
               \<and> events_insert api s1 calendar_id
                    (new_event_body summary' (isoformat start_dt) (isoformat end_dt)) = (Inl e, s'))
         \<or> (\<exists>s1 conflicting_events suggested_start_dt suggested_end_dt.
               events_list api s calendar_id (isoformat start_dt) (isoformat end_dt)
                 = (Inr conflicting_events, s1)
               \<and> conflicting_events \<noteq> []
               \<and> suggest_slot tz start_dt end_dt conflicting_events
                   = Inr (suggested_start_dt, suggested_end_dt)
               \<and> events_list api s1 calendar_id (isoformat suggested_start_dt)
                    (isoformat suggested_end_dt) = (Inl e, s')))
      \<longrightarrow> smart_schedule_meeting print tz api summary' preferred_start preferred_end calendar_id s
            = (Inr (error_occurred e), s')
          \<and> status (error_occurred e) = ''error''
          \<and> message (error_occurred e) = ''An error occurred: '' @ str e
          \<and> status (error_occurred e) \<noteq> status (suggested a b)
          \<and> status (error_occurred e) \<noteq> status unavailable)"
proof (intro conjI impI)
  show "\<exists>r. fst (smart_schedule_meeting print tz api summary' preferred_start preferred_end
                   calendar_id s) = Inr r
            \<and> status r \<in> {''success'', ''conflict'', ''error''}"
  proof (cases rule: smart_schedule_meeting_cases
      [of summary' preferred_start preferred_end print tz api calendar_id s])
    case missing
    then show ?thesis by (simp add: status_values)
  next
    case (returned r s')
    then have "fst (smart_schedule_meeting print tz api summary' preferred_start preferred_end
                   calendar_id s) = Inr r" by simp
    with smart_schedule_meeting_status [OF this] show ?thesis by blast
  next
    case (raised x s')
    moreover have "on_exception print x = Inr (error_occurred x)"
      by (rule on_exception_returns) (rule assms)
    ultimately have "fst (smart_schedule_meeting print tz api summary' preferred_start preferred_end
                   calendar_id s) = Inr (error_occurred x)"
      by simp
    with smart_schedule_meeting_status [OF this] show ?thesis by blast
  qed
next
  assume h: "summary' \<noteq> []
      \<and> preferred_window tz preferred_start preferred_end = Inr (start_dt, end_dt)
      \<and> (events_list api s calendar_id (isoformat start_dt) (isoformat end_dt) = (Inl e, s')
         \<or> (\<exists>s1. events_list api s calendar_id (isoformat start_dt) (isoformat end_dt) = (Inr [], s1)
               \<and> events_insert api s1 calendar_id
                    (new_event_body summary' (isoformat start_dt) (isoformat end_dt)) = (Inl e, s'))
         \<or> (\<exists>s1 conflicting_events suggested_start_dt suggested_end_dt.
               events_list api s calendar_id (isoformat start_dt) (isoformat end_dt)
                 = (Inr conflicting_events, s1)
               \<and> conflicting_events \<noteq> []
               \<and> suggest_slot tz start_dt end_dt conflicting_events
                   = Inr (suggested_start_dt, suggested_end_dt)
               \<and> events_list api s1 calendar_id (isoformat suggested_start_dt)
                    (isoformat suggested_end_dt) = (Inl e, s')))"
  then have n: "summary' \<noteq> []"
    and w: "preferred_window tz preferred_start preferred_end = Inr (start_dt, end_dt)" by simp_all
  have p: "on_exception print e = Inr (error_occurred e)"
    by (rule on_exception_returns) (rule assms)
  from h consider
      (list) "events_list api s calendar_id (isoformat start_dt) (isoformat end_dt) = (Inl e, s')"
    | (ins) s1 where "events_list api s calendar_id (isoformat start_dt) (isoformat end_dt) = (Inr [], s1)"
        "events_insert api s1 calendar_id
           (new_event_body summary' (isoformat start_dt) (isoformat end_dt)) = (Inl e, s')"
    | (again) s1 evs cs ce where
        "events_list api s calendar_id (isoformat start_dt) (isoformat end_dt) = (Inr evs, s1)"
        "evs \<noteq> []" "suggest_slot tz start_dt end_dt evs = Inr (cs, ce)"
        "events_list api s1 calendar_id (isoformat cs) (isoformat ce) = (Inl e, s')"
    by blast
  then show "smart_schedule_meeting print tz api summary' preferred_start preferred_end calendar_id s
            = (Inr (error_occurred e), s')"
  proof cases
    case list
    show ?thesis unfolding smart_schedule_meeting_list_fails [OF n w list] by (simp add: p)
  next
    case ins
    show ?thesis unfolding smart_schedule_meeting_free [OF n w ins(1)] by (simp add: ins(2) p)
  next
    case again
    show ?thesis unfolding smart_schedule_meeting_busy [OF n w again(1,2)]
      by (simp add: again(3,4) p)
  qed
qed (simp_all add: status_values error_occurred_def)

theorem failures_are_error_replies_witness:
  "utf_8_stdout (''Error in smart_schedule_meeting: ''
       @ str (TypeError (quoted ''list'' @ '' object is not callable''))) = None
   \<and> preferred_window Asia_Kolkata ''2025-07-17T10:00:00+05:30'' ''2025-07-17T10:30:00+05:30''
     = Inr (iso ''2025-07-17T10:00:00+05:30'', iso ''2025-07-17T10:30:00+05:30'')
   \<and> events_list MockGoogleCalendarAPI [] ''primary''
       (isoformat (iso ''2025-07-17T10:00:00+05:30'')) (isoformat (iso ''2025-07-17T10:30:00+05:30''))
     = (Inl (TypeError (quoted ''list'' @ '' object is not callable'')), [])
   \<and> smart_schedule_meeting utf_8_stdout Asia_Kolkata MockGoogleCalendarAPI ''Sync''
       ''2025-07-17T10:00:00+05:30'' ''2025-07-17T10:30:00+05:30'' ''primary'' []
     = (Inr (error_occurred (TypeError (quoted ''list'' @ '' object is not callable''))), [])
   \<and> status (error_occurred (TypeError (quoted ''list'' @ '' object is not callable''))) = ''error''
   \<and> message (error_occurred (TypeError (quoted ''list'' @ '' object is not callable'')))
     = ''An error occurred: '' @ str (TypeError (quoted ''list'' @ '' object is not callable''))"
proof -
  have p: "\<And>e. utf_8_stdout (''Error in smart_schedule_meeting: '' @ str e) = None"
    by (simp add: utf_8_stdout_def)
  have l: "events_list MockGoogleCalendarAPI [] ''primary''
       (isoformat (iso ''2025-07-17T10:00:00+05:30'')) (isoformat (iso ''2025-07-17T10:30:00+05:30''))
     = (Inl (TypeError (quoted ''list'' @ '' object is not callable'')), [])"
    by (simp add: MockGoogleCalendarAPI_def)
  have n: "''Sync'' \<noteq> []" by simp
  from failures_are_error_replies [of utf_8_stdout, OF p,
        where tz = Asia_Kolkata and api = MockGoogleCalendarAPI
        and summary' = "''Sync''" and preferred_start = "''2025-07-17T10:00:00+05:30''"
        and preferred_end = "''2025-07-17T10:30:00+05:30''" and calendar_id = "''primary''"
        and s = "[]" and start_dt = "iso ''2025-07-17T10:00:00+05:30''"
        and end_dt = "iso ''2025-07-17T10:30:00+05:30''"
        and e = "TypeError (quoted ''list'' @ '' object is not callable'')"
        and s' = "[]"]
    n scenario_preferred_window l
  have "smart_schedule_meeting utf_8_stdout Asia_Kolkata MockGoogleCalendarAPI ''Sync''
       ''2025-07-17T10:00:00+05:30'' ''2025-07-17T10:30:00+05:30'' ''primary'' []
     = (Inr (error_occurred (TypeError (quoted ''list'' @ '' object is not callable''))), [])"
    and "status (error_occurred (TypeError (quoted ''list'' @ '' object is not callable''))) = ''error''"
    and "message (error_occurred (TypeError (quoted ''list'' @ '' object is not callable'')))
     = ''An error occurred: '' @ str (TypeError (quoted ''list'' @ '' object is not callable''))"
    by blast+
  moreover have "utf_8_stdout (''Error in smart_schedule_meeting: ''
       @ str (TypeError (quoted ''list'' @ '' object is not callable''))) = None"
    by (rule p)
  ultimately show ?thesis using scenario_preferred_window l by blast
qed

text \<open>
  Claim C1, as stated: a request whose preferred start is not before its preferred end
  gets the validation error. It fails: the order of start and end is not looked at. With
  start 11:00, end 10:00 and an empty calendar the meeting is booked.
\<close>

theorem end_before_start_is_booked:
  "dt_less (iso ''2025-07-17T11:00:00+05:30'') (iso ''2025-07-17T10:00:00+05:30'') = Inr False
   \<and> smart_schedule_meeting utf_8_stdout Asia_Kolkata calendar_service ''Sync''
       ''2025-07-17T11:00:00+05:30'' ''2025-07-17T10:00:00+05:30'' ''primary'' []
     = (Inr (scheduled (booking ''Sync'' ''2025-07-17T11:00:00+05:30'' ''2025-07-17T10:00:00+05:30'')),
        [booking ''Sync'' ''2025-07-17T11:00:00+05:30'' ''2025-07-17T10:00:00+05:30''])
   \<and> status (scheduled (booking ''Sync'' ''2025-07-17T11:00:00+05:30'' ''2025-07-17T10:00:00+05:30''))
     = ''success''"
  by code_simp

text \<open>
  Claim C1, amended. The validation error is the reply exactly when the summary, the
  preferred start or the preferred end is missing (empty); then the backend is not
  called and the calendar state is unchanged. A request with all three present never
  gets the validation error, whatever the order of its start and end.
\<close>

theorem validation_checks_presence_only:
  "(summary' = [] \<or> preferred_start = [] \<or> preferred_end = []
      \<longrightarrow> smart_schedule_meeting print tz api summary' preferred_start preferred_end calendar_id s
            = (Inr missing_details, s))
   \<and> (summary' \<noteq> [] \<and> preferred_start \<noteq> [] \<and> preferred_end \<noteq> []
      \<longrightarrow> fst (smart_schedule_meeting print tz api summary' preferred_start preferred_end calendar_id s)
            \<noteq> Inr missing_details)"
proof (intro conjI impI)
  assume "summary' = [] \<or> preferred_start = [] \<or> preferred_end = []"
  then show "smart_schedule_meeting print tz api summary' preferred_start preferred_end calendar_id s
            = (Inr missing_details, s)"
    by (simp add: smart_schedule_meeting_def)
next
  assume present: "summary' \<noteq> [] \<and> preferred_start \<noteq> [] \<and> preferred_end \<noteq> []"
  show "fst (smart_schedule_meeting print tz api summary' preferred_start preferred_end calendar_id s)
            \<noteq> Inr missing_details"
  proof (cases rule: smart_schedule_meeting_cases
      [of summary' preferred_start preferred_end print tz api calendar_id s])
    case missing
    with present show ?thesis by simp
  next
    case (returned r s')
    from returned(4) have "status r = ''success'' \<or> status r = ''conflict''"
      by (rule smart_schedule_meeting_try_status)
    then have "r \<noteq> missing_details" by (auto simp: status_values)
    with returned(5) show ?thesis by simp
  next
    case (raised e s')
    have "on_exception print e \<noteq> Inr missing_details"
      using on_exception_Inr [of print e missing_details] error_occurred_not_missing [of e] by auto
    with raised(5) show ?thesis by simp
  qed
qed

theorem validation_checks_presence_only_witness:
  "smart_schedule_meeting utf_8_stdout Asia_Kolkata calendar_service []
       ''2025-07-17T10:00:00+05:30'' ''2025-07-17T10:30:00+05:30'' ''primary'' [standup]
     = (Inr missing_details, [standup])
   \<and> fst (smart_schedule_meeting utf_8_stdout Asia_Kolkata calendar_service ''Sync''
       ''2025-07-17T11:00:00+05:30'' ''2025-07-17T10:00:00+05:30'' ''primary'' [])
     \<noteq> Inr missing_details"
  using validation_checks_presence_only [where summary' = "[]"
      and preferred_start = "''2025-07-17T10:00:00+05:30''"
      and preferred_end = "''2025-07-17T10:30:00+05:30''" and tz = Asia_Kolkata
      and api = calendar_service and calendar_id = "''primary''" and s = "[standup]"
      and print = utf_8_stdout]
    validation_checks_presence_only [where summary' = "''Sync''"
      and preferred_start = "''2025-07-17T11:00:00+05:30''"
      and preferred_end = "''2025-07-17T10:00:00+05:30''" and tz = Asia_Kolkata
      and api = calendar_service and calendar_id = "''primary''" and s = "[]"
      and print = utf_8_stdout]
  by simp

lemma empty_calendar_listed:
  "list_events [] ''primary'' ''2025-07-17T10:00:00+05:30'' ''2025-07-17T10:30:00+05:30'' = Inr []"
  by code_simp

lemma empty_calendar_insert:
  "insert_event [] ''primary''
     (new_event_body ''Sync'' ''2025-07-17T10:00:00+05:30'' ''2025-07-17T10:30:00+05:30'')
   = (booking ''Sync'' ''2025-07-17T10:00:00+05:30'' ''2025-07-17T10:30:00+05:30'',
      [booking ''Sync'' ''2025-07-17T10:00:00+05:30'' ''2025-07-17T10:30:00+05:30''])"
  by code_simp

lemma scenario_in_zone:
  "in_zone Asia_Kolkata (iso ''2025-07-17T10:00:00+05:30'')"
  "in_zone Asia_Kolkata (iso ''2025-07-17T10:30:00+05:30'')"
  by code_simp+

text \<open>
  Claim C2, as stated: with no booking in the way, the event booked carries exactly the
  preferred start and end instants. It fails where the request writes its window with
  another offset than the zone's. The request from 10:00-07:00 to 10:30-07:00 on an
  empty calendar is booked from 10:00+05:30 to 10:30+05:30: the event starts twelve and
  a half hours before the preferred start, and ends before it.
\<close>

theorem offset_of_the_request_is_not_booked:
  "list_events [] ''primary'' ''2025-07-17T10:00:00-07:00'' ''2025-07-17T10:30:00-07:00'' = Inr []
   \<and> smart_schedule_meeting utf_8_stdout Asia_Kolkata calendar_service ''Sync''
       ''2025-07-17T10:00:00-07:00'' ''2025-07-17T10:30:00-07:00'' ''primary'' []
     = (Inr (scheduled (booking ''Sync'' ''2025-07-17T10:00:00+05:30'' ''2025-07-17T10:30:00+05:30'')),
        [booking ''Sync'' ''2025-07-17T10:00:00+05:30'' ''2025-07-17T10:30:00+05:30''])
   \<and> dt_sub (iso ''2025-07-17T10:00:00-07:00'') (iso ''2025-07-17T10:00:00+05:30'')
     = Inr (timedelta_minutes 750)
   \<and> dt_less (iso ''2025-07-17T10:30:00+05:30'') (iso ''2025-07-17T10:00:00-07:00'') = Inr True"
  by code_simp

text \<open>
  Claim C2, amended. Take a request with a summary whose preferred start and end are
  ISO texts, read as \<open>requested_start\<close> and \<open>requested_end\<close>, and let \<open>start_dt\<close> and
  \<open>end_dt\<close> be their wall-clock readings placed in the calendar zone. When the backend
  reports no event for that window and takes the insert request, the call sends one
  insert request, whose body holds the summary and the ISO texts of \<open>start_dt\<close> and
  \<open>end_dt\<close>, and its reply is the success reply with the event the backend created.
  \<open>start_dt\<close> and \<open>end_dt\<close> have the wall-clock readings of the request and the offset
  of the zone. They are the requested start and end exactly when the request is written
  with the offset of the zone; for a request written with an offset, they are the same
  instants only then. \<^verbatim>\<open>insert_event\<close> stores and returns the summary, start and end of
  the body as they are.
\<close>

theorem free_window_is_booked:
  assumes "summary' \<noteq> []"
    and "fromisoformat preferred_start = Inr requested_start"
    and "fromisoformat preferred_end = Inr requested_end"
    and "localize tz (replace_tzinfo_None requested_start) = Inr start_dt"
    and "localize tz (replace_tzinfo_None requested_end) = Inr end_dt"
    and "events_list api s calendar_id (isoformat start_dt) (isoformat end_dt) = (Inr [], s1)"
    and "events_insert api s1 calendar_id
           (new_event_body summary' (isoformat start_dt) (isoformat end_dt)) = (Inr created_event, s2)"
  shows "smart_schedule_meeting print tz api summary' preferred_start preferred_end calendar_id s
           = (Inr (scheduled created_event), s2)
    \<and> status (scheduled created_event) = ''success''
    \<and> event (scheduled created_event) = Some created_event
    \<and> wall start_dt = wall requested_start \<and> wall end_dt = wall requested_end
    \<and> in_zone tz start_dt \<and> in_zone tz end_dt
    \<and> (in_zone tz requested_start \<longleftrightarrow> start_dt = requested_start)
    \<and> (in_zone tz requested_end \<longleftrightarrow> end_dt = requested_end)
    \<and> (tzinfo requested_start \<noteq> None
        \<longrightarrow> (instant start_dt = instant requested_start \<longleftrightarrow> in_zone tz requested_start))
    \<and> (tzinfo requested_end \<noteq> None
        \<longrightarrow> (instant end_dt = instant requested_end \<longleftrightarrow> in_zone tz requested_end))
    \<and> (\<forall>events ev events'.
          insert_event events calendar_id
            (new_event_body summary' (isoformat start_dt) (isoformat end_dt)) = (ev, events')
          \<longrightarrow> summary ev = summary'
              \<and> dateTime (start ev) = Some (isoformat start_dt)
              \<and> dateTime (end' ev) = Some (isoformat end_dt)
              \<and> events' = events @ [ev])"
proof -
  have w: "preferred_window tz preferred_start preferred_end = Inr (start_dt, end_dt)"
    unfolding preferred_window_Inr using assms(2-5) by blast
  have 1: "smart_schedule_meeting print tz api summary' preferred_start preferred_end calendar_id s
           = (Inr (scheduled created_event), s2)"
    unfolding smart_schedule_meeting_free [OF assms(1) w assms(6)] by (simp add: assms(7))
  have 2: "status (scheduled created_event) = ''success''"
    "event (scheduled created_event) = Some created_event"
    by (simp_all add: scheduled_def)
  note a = localize_Inr [OF assms(4)] and b = localize_Inr [OF assms(5)]
  have 3: "tzinfo requested_start \<noteq> None
        \<longrightarrow> (instant start_dt = instant requested_start \<longleftrightarrow> in_zone tz requested_start)"
    using a(4,5) by blast
  have 4: "tzinfo requested_end \<noteq> None
        \<longrightarrow> (instant end_dt = instant requested_end \<longleftrightarrow> in_zone tz requested_end)"
    using b(4,5) by blast
  have 5: "\<forall>events ev events'.
          insert_event events calendar_id
            (new_event_body summary' (isoformat start_dt) (isoformat end_dt)) = (ev, events')
          \<longrightarrow> summary ev = summary'
              \<and> dateTime (start ev) = Some (isoformat start_dt)
              \<and> dateTime (end' ev) = Some (isoformat end_dt)
              \<and> events' = events @ [ev]"
    by (auto dest!: insert_event_echo simp: new_event_body_def)
  from 1 2 a(1,3,4) b(1,3,4) 3 4 5 show ?thesis by blast
qed

theorem free_window_is_booked_witness:
  "fromisoformat ''2025-07-17T10:00:00+05:30'' = Inr (iso ''2025-07-17T10:00:00+05:30'')
   \<and> fromisoformat ''2025-07-17T10:30:00+05:30'' = Inr (iso ''2025-07-17T10:30:00+05:30'')
   \<and> localize Asia_Kolkata (replace_tzinfo_None (iso ''2025-07-17T10:00:00+05:30''))
     = Inr (iso ''2025-07-17T10:00:00+05:30'')
   \<and> localize Asia_Kolkata (replace_tzinfo_None (iso ''2025-07-17T10:30:00+05:30''))
     = Inr (iso ''2025-07-17T10:30:00+05:30'')
   \<and> events_list calendar_service [] ''primary''
       (isoformat (iso ''2025-07-17T10:00:00+05:30'')) (isoformat (iso ''2025-07-17T10:30:00+05:30''))
     = (Inr [], [])
   \<and> events_insert calendar_service [] ''primary''
       (new_event_body ''Sync'' (isoformat (iso ''2025-07-17T10:00:00+05:30''))
          (isoformat (iso ''2025-07-17T10:30:00+05:30'')))
     = (Inr (booking ''Sync'' ''2025-07-17T10:00:00+05:30'' ''2025-07-17T10:30:00+05:30''),
        [booking ''Sync'' ''2025-07-17T10:00:00+05:30'' ''2025-07-17T10:30:00+05:30''])
   \<and> smart_schedule_meeting utf_8_stdout Asia_Kolkata calendar_service ''Sync''
       ''2025-07-17T10:00:00+05:30'' ''2025-07-17T10:30:00+05:30'' ''primary'' []
     = (Inr (scheduled (booking ''Sync'' ''2025-07-17T10:00:00+05:30'' ''2025-07-17T10:30:00+05:30'')),
        [booking ''Sync'' ''2025-07-17T10:00:00+05:30'' ''2025-07-17T10:30:00+05:30''])
   \<and> in_zone Asia_Kolkata (iso ''2025-07-17T10:00:00+05:30'')
   \<and> in_zone Asia_Kolkata (iso ''2025-07-17T10:30:00+05:30'')"
proof -
  have n: "''Sync'' \<noteq> []" by simp
  have l: "events_list calendar_service [] ''primary''
       (isoformat (iso ''2025-07-17T10:00:00+05:30'')) (isoformat (iso ''2025-07-17T10:30:00+05:30''))
     = (Inr [], [])"
    by (simp add: calendar_service_def scenario_isoformat empty_calendar_listed)
  have i: "events_insert calendar_service [] ''primary''
       (new_event_body ''Sync'' (isoformat (iso ''2025-07-17T10:00:00+05:30''))
          (isoformat (iso ''2025-07-17T10:30:00+05:30'')))
     = (Inr (booking ''Sync'' ''2025-07-17T10:00:00+05:30'' ''2025-07-17T10:30:00+05:30''),
        [booking ''Sync'' ''2025-07-17T10:00:00+05:30'' ''2025-07-17T10:30:00+05:30''])"
    by (simp add: calendar_service_def scenario_isoformat empty_calendar_insert)
  from free_window_is_booked [OF n scenario_fromisoformat scenario_localize l i,
      where print = utf_8_stdout]
  have "smart_schedule_meeting utf_8_stdout Asia_Kolkata calendar_service ''Sync''
       ''2025-07-17T10:00:00+05:30'' ''2025-07-17T10:30:00+05:30'' ''primary'' []
     = (Inr (scheduled (booking ''Sync'' ''2025-07-17T10:00:00+05:30'' ''2025-07-17T10:30:00+05:30'')),
        [booking ''Sync'' ''2025-07-17T10:00:00+05:30'' ''2025-07-17T10:30:00+05:30''])"
    and "in_zone Asia_Kolkata (iso ''2025-07-17T10:00:00+05:30'')"
    and "in_zone Asia_Kolkata (iso ''2025-07-17T10:30:00+05:30'')"
    by blast+
  with scenario_fromisoformat scenario_localize l i show ?thesis by blast
qed

text \<open>
  Claim C9. When the phrase cannot be interpreted, that is when the parser raises for
  it whatever the default, the reply of \<^verbatim>\<open>parse_natural_datetime\<close> has no
  \<^verbatim>\<open>parsed_datetime\<close> and has an \<^verbatim>\<open>error\<close> with a message that is not empty.
\<close>

theorem unparsed_phrase_is_an_error:
  assumes "\<And>default_dt. \<exists>e. dateutil_parse input_string default_dt = Inl e"
  shows "parsed_datetime (parse_natural_datetime tz dateutil_parse input_string current_datetime_str)
           = None
    \<and> (\<exists>m. error (parse_natural_datetime tz dateutil_parse input_string current_datetime_str)
              = Some m \<and> m \<noteq> [])"
proof -
  have "\<exists>e. parse_natural_datetime_try tz dateutil_parse input_string current_datetime_str = Inl e"
  proof (cases "fromisoformat current_datetime_str")
    case (Inl e)
    then show ?thesis by (simp add: parse_natural_datetime_try_def)
  next
    case d: (Inr d)
    show ?thesis
    proof (cases "localize tz (replace_tzinfo_None d)")
      case (Inl e)
      with d show ?thesis by (simp add: parse_natural_datetime_try_def)
    next
      case c: (Inr current_dt)
      from assms obtain e where "dateutil_parse input_string current_dt = Inl e" by blast
      with d c show ?thesis by (simp add: parse_natural_datetime_try_def)
    qed
  qed
  then obtain e where
    "parse_natural_datetime_try tz dateutil_parse input_string current_datetime_str = Inl e" ..
  then show ?thesis by (simp add: parse_natural_datetime_def)
qed

theorem unparsed_phrase_is_an_error_witness:
  "(\<forall>default_dt. \<exists>e. no_date_found [] default_dt = Inl e)
   \<and> parse_natural_datetime Asia_Kolkata no_date_found [] ''2025-07-17T09:00:00+05:30''
     = \<lparr>parsed_datetime = None,
        error = Some ''Could not parse natural datetime: String does not contain a date: . Please try a more specific format.''\<rparr>"
proof -
  have h: "\<And>default_dt. \<exists>e. no_date_found [] default_dt = Inl e" by (simp add: no_date_found_def)
  have "parse_natural_datetime Asia_Kolkata no_date_found [] ''2025-07-17T09:00:00+05:30''
     = \<lparr>parsed_datetime = None,
        error = Some ''Could not parse natural datetime: String does not contain a date: . Please try a more specific format.''\<rparr>"
    by code_simp
  with h unparsed_phrase_is_an_error [of no_date_found "[]", OF h] show ?thesis by blast
qed

text \<open>
  Claim C10. The offsets written in the ISO texts given to the tools do not matter: two
  texts for the preferred start with the same wall-clock reading, and two for the
  preferred end, give the same outcome and the same calendar state, and two texts for
  the current time with the same reading give the same reply of
  \<^verbatim>\<open>parse_natural_datetime\<close>.
\<close>

theorem offset_is_ignored:
  assumes "fromisoformat a1 = Inr x1" and "fromisoformat b1 = Inr y1" and "wall x1 = wall y1"
    and "fromisoformat a2 = Inr x2" and "fromisoformat b2 = Inr y2" and "wall x2 = wall y2"
  shows "smart_schedule_meeting print tz api summary' a1 a2 calendar_id s
           = smart_schedule_meeting print tz api summary' b1 b2 calendar_id s
    \<and> parse_natural_datetime tz dateutil_parse input_string a1
           = parse_natural_datetime tz dateutil_parse input_string b1"
proof -
  note r1 = replace_tzinfo_None_eq [OF assms(3)] and r2 = replace_tzinfo_None_eq [OF assms(6)]
  have w: "preferred_window tz a1 a2 = preferred_window tz b1 b2"
    by (simp add: preferred_window_def assms(1,2,4,5) r1 r2 split: sum.split)
  have n: "a1 \<noteq> []" "b1 \<noteq> []" "a2 \<noteq> []" "b2 \<noteq> []"
    using assms(1,2,4,5) by (auto dest: fromisoformat_nonempty)
  have "smart_schedule_meeting_try tz api summary' a1 a2 calendar_id s
      = smart_schedule_meeting_try tz api summary' b1 b2 calendar_id s"
    by (simp add: smart_schedule_meeting_try_def w)
  then have "smart_schedule_meeting print tz api summary' a1 a2 calendar_id s
           = smart_schedule_meeting print tz api summary' b1 b2 calendar_id s"
    using n by (simp add: smart_schedule_meeting_def)
  moreover have "parse_natural_datetime_try tz dateutil_parse input_string a1
      = parse_natural_datetime_try tz dateutil_parse input_string b1"
    by (simp add: parse_natural_datetime_try_def assms(1,2) r1)
  then have "parse_natural_datetime tz dateutil_parse input_string a1
           = parse_natural_datetime tz dateutil_parse input_string b1"
    by (simp add: parse_natural_datetime_def)
  ultimately show ?thesis by simp
qed

lemma scenario_other_offset:
  "fromisoformat ''2025-07-17T10:00:00-07:00'' = Inr (iso ''2025-07-17T10:00:00-07:00'')"
  "fromisoformat ''2025-07-17T10:30:00'' = Inr (iso ''2025-07-17T10:30:00'')"
  "wall (iso ''2025-07-17T10:00:00+05:30'') = wall (iso ''2025-07-17T10:00:00-07:00'')"
  "wall (iso ''2025-07-17T10:30:00+05:30'') = wall (iso ''2025-07-17T10:30:00'')"
  by code_simp+

theorem offset_is_ignored_witness:
  "fromisoformat ''2025-07-17T10:00:00+05:30'' = Inr (iso ''2025-07-17T10:00:00+05:30'')
   \<and> fromisoformat ''2025-07-17T10:00:00-07:00'' = Inr (iso ''2025-07-17T10:00:00-07:00'')
   \<and> wall (iso ''2025-07-17T10:00:00+05:30'') = wall (iso ''2025-07-17T10:00:00-07:00'')
   \<and> fromisoformat ''2025-07-17T10:30:00+05:30'' = Inr (iso ''2025-07-17T10:30:00+05:30'')
   \<and> fromisoformat ''2025-07-17T10:30:00'' = Inr (iso ''2025-07-17T10:30:00'')
   \<and> wall (iso ''2025-07-17T10:30:00+05:30'') = wall (iso ''2025-07-17T10:30:00'')
   \<and> smart_schedule_meeting utf_8_stdout Asia_Kolkata calendar_service ''Sync''
       ''2025-07-17T10:00:00+05:30'' ''2025-07-17T10:30:00+05:30'' ''primary'' [standup]
     = smart_schedule_meeting utf_8_stdout Asia_Kolkata calendar_service ''Sync''
       ''2025-07-17T10:00:00-07:00'' ''2025-07-17T10:30:00'' ''primary'' [standup]
   \<and> parse_natural_datetime Asia_Kolkata no_date_found ''soon''
       ''2025-07-17T10:00:00+05:30''
     = parse_natural_datetime Asia_Kolkata no_date_found ''soon''
       ''2025-07-17T10:00:00-07:00''"
  using offset_is_ignored [OF scenario_fromisoformat(1) scenario_other_offset(1)
      scenario_other_offset(3) scenario_fromisoformat(2) scenario_other_offset(2)
      scenario_other_offset(4),
      where tz = Asia_Kolkata and api = calendar_service and summary' = "''Sync''"
        and calendar_id = "''primary''" and s = "[standup]" and dateutil_parse = no_date_found
        and input_string = "''soon''" and print = utf_8_stdout]
    scenario_fromisoformat scenario_other_offset
  by simp

end
